theory Spec2Isabelle
  imports Main "HOL-Library.Log_Nat"
begin

section \<open>Python values\<close>

text \<open>
  The program is a Streamlit script (\<^verbatim>\<open>streamlit_main.py\<close>) that posts form input to a
  backend and renders the decoded JSON answer. Values are dynamically typed, so the model
  keeps one datatype of decoded JSON values and writes out Python's truthiness,
  \<^verbatim>\<open>dict.get\<close>, string conversion and number formatting on it.

  A Python \<^verbatim>\<open>float\<close> is an IEEE binary64 value: a sign and a non-negative rational
  magnitude, an infinity, or a NaN. \<open>Finite True 0\<close> is the negative zero.
  A Python \<^verbatim>\<open>str\<close> is modelled by its UTF-8 code units.
\<close>

datatype pyfloat = Finite bool rat | Infinity bool | NaN

datatype json =
    JNull
  | JBool bool
  | JInt int
  | JFloat pyfloat
  | JStr string
  | JArr "json list"
  | JObj "(string \<times> json) list"

datatype exn_class =
    ConnectionError | RequestException | AttributeError | TypeError
  | ValueError | KeyError | OverflowError | ZeroDivisionError | UnicodeEncodeError
  | OtherException

datatype exn = Exn exn_class string

fun truthy :: "json \<Rightarrow> bool" where
  "truthy JNull = False"
| "truthy (JBool b) = b"
| "truthy (JInt n) = (n \<noteq> 0)"
| "truthy (JFloat (Finite s m)) = (m \<noteq> 0)"
| "truthy (JFloat (Infinity s)) = True"
| "truthy (JFloat NaN) = True"
| "truthy (JStr s) = (s \<noteq> [])"
| "truthy (JArr xs) = (xs \<noteq> [])"
| "truthy (JObj kvs) = (kvs \<noteq> [])"

fun type_name :: "json \<Rightarrow> string" where
  "type_name JNull = ''NoneType''"
| "type_name (JBool b) = ''bool''"
| "type_name (JInt n) = ''int''"
| "type_name (JFloat f) = ''float''"
| "type_name (JStr s) = ''str''"
| "type_name (JArr xs) = ''list''"
| "type_name (JObj kvs) = ''dict''"

definition quoted :: "string \<Rightarrow> string" where
  "quoted s = CHR 0x27 # s @ [CHR 0x27]"

text \<open>\<^verbatim>\<open>d.get(key, default)\<close> on a dict, and on any value: only a dict has the method.\<close>

definition dict_get :: "(string \<times> json) list \<Rightarrow> string \<Rightarrow> json \<Rightarrow> json" where
  "dict_get kvs k dflt = (case map_of kvs k of None \<Rightarrow> dflt | Some v \<Rightarrow> v)"

definition py_get :: "json \<Rightarrow> string \<Rightarrow> json \<Rightarrow> exn + json" where
  "py_get v k dflt =
     (case v of
        JObj kvs \<Rightarrow> Inr (dict_get kvs k dflt)
      | _ \<Rightarrow> Inl (Exn AttributeError
                 (quoted (type_name v) @ '' object has no attribute '' @ quoted ''get'')))"

section \<open>Binary64 arithmetic\<close>

text \<open>
  Rounding of a non-negative rational to the nearest binary64 magnitude, ties to even:
  the result is \<open>n * 2 powi e\<close> with \<open>n\<close> an integer below \<open>2 ^ 53\<close> (or equal to it,
  which is the first value of the next binade) and \<open>e\<close> the exponent of the unit in the
  last place, never below \<open>-1074\<close> (the subnormal range).
\<close>

definition round_half_even :: "rat \<Rightarrow> int" where
  "round_half_even x =
     (let f = \<lfloor>x\<rfloor>; d = x - of_int f
      in if d < 1 / 2 then f
         else if 1 / 2 < d then f + 1
         else if even f then f else f + 1)"

definition ulp_exponent :: "rat \<Rightarrow> int" where
  "ulp_exponent q =
     (let (p, d) = quotient_of q;
          k = bitlen p - bitlen d;
          lg = (if q < 2 powi k then k - 1 else k)
      in max (lg - 52) (- 1074))"

definition round_binary64 :: "rat \<Rightarrow> rat" where
  "round_binary64 q =
     (if q \<le> 0 then 0
      else let e = ulp_exponent q
           in of_int (round_half_even (q / 2 powi e)) * 2 powi e)"

definition binary64_of :: "bool \<Rightarrow> rat \<Rightarrow> pyfloat" where
  "binary64_of s q =
     (let m = round_binary64 q in if 2 ^ 1024 \<le> m then Infinity s else Finite s m)"

text \<open>\<^verbatim>\<open>float(n)\<close> for an \<^verbatim>\<open>int\<close>: correctly rounded, OverflowError beyond the range.\<close>

definition int_to_float :: "int \<Rightarrow> exn + pyfloat" where
  "int_to_float n =
     (case binary64_of (n < 0) (of_int \<bar>n\<bar>) of
        Infinity s \<Rightarrow> Inl (Exn OverflowError ''int too large to convert to float'')
      | f \<Rightarrow> Inr f)"

text \<open>\<^verbatim>\<open>x / y\<close> and \<^verbatim>\<open>x * y\<close> on floats.\<close>

fun float_truediv :: "pyfloat \<Rightarrow> pyfloat \<Rightarrow> exn + pyfloat" where
  "float_truediv x (Finite t b) =
     (if b = 0 then Inl (Exn ZeroDivisionError ''float division by zero'')
      else case x of
             Finite s a \<Rightarrow> Inr (binary64_of (s \<noteq> t) (a / b))
           | Infinity s \<Rightarrow> Inr (Infinity (s \<noteq> t))
           | NaN \<Rightarrow> Inr NaN)"
| "float_truediv (Finite s a) (Infinity t) = Inr (Finite (s \<noteq> t) 0)"
| "float_truediv (Infinity s) (Infinity t) = Inr NaN"
| "float_truediv NaN (Infinity t) = Inr NaN"
| "float_truediv x NaN = Inr NaN"

fun float_mul :: "pyfloat \<Rightarrow> pyfloat \<Rightarrow> pyfloat" where
  "float_mul (Finite s a) (Finite t b) = binary64_of (s \<noteq> t) (a * b)"
| "float_mul (Finite s a) (Infinity t) = (if a = 0 then NaN else Infinity (s \<noteq> t))"
| "float_mul (Infinity s) (Finite t b) = (if b = 0 then NaN else Infinity (s \<noteq> t))"
| "float_mul (Infinity s) (Infinity t) = Infinity (s \<noteq> t)"
| "float_mul NaN y = NaN"
| "float_mul x NaN = NaN"

section \<open>String conversion and number formatting\<close>

function digits :: "int \<Rightarrow> string" where
  "digits n = (if n < 10 then [''0123456789'' ! nat n]
               else digits (n div 10) @ [''0123456789'' ! nat (n mod 10)])"
  by pat_completeness auto
termination
  by (relation "measure nat") auto

declare digits.simps [simp del]

definition zero_pad :: "nat \<Rightarrow> string \<Rightarrow> string" where
  "zero_pad w s = replicate (w - length s) CHR ''0'' @ s"

function grouped :: "int \<Rightarrow> string" where
  "grouped n = (if n < 1000 then digits n
                else grouped (n div 1000) @ '','' @ zero_pad 3 (digits (n mod 1000)))"
  by pat_completeness auto
termination
  by (relation "measure nat") auto

declare grouped.simps [simp del]

definition str_int :: "int \<Rightarrow> string" where
  "str_int n = (if n < 0 then ''-'' else []) @ digits \<bar>n\<bar>"

text \<open>
  \<^verbatim>\<open>format(x, ',.2f')\<close> and \<^verbatim>\<open>format(x, '.1f')\<close> on a float: the exact value rounded
  half-even to \<open>prec\<close> decimals, the integer part grouped by thousands when \<open>comma\<close>.
\<close>

definition format_float :: "bool \<Rightarrow> nat \<Rightarrow> pyfloat \<Rightarrow> string" where
  "format_float comma prec x =
     (case x of
        Finite s m \<Rightarrow>
          (let n = round_half_even (m * 10 ^ prec);
               ip = n div 10 ^ prec;
               fp = n mod 10 ^ prec
           in (if s then ''-'' else []) @ (if comma then grouped ip else digits ip)
              @ (if prec = 0 then [] else ''.'' @ zero_pad prec (digits fp)))
      | Infinity s \<Rightarrow> (if s then ''-inf'' else ''inf'')
      | NaN \<Rightarrow> ''nan'')"

text \<open>
  The format specification on any value: \<^verbatim>\<open>bool\<close> and \<^verbatim>\<open>int\<close> are converted to float
  first, a \<^verbatim>\<open>str\<close> raises ValueError, every other type raises TypeError.
\<close>

definition py_format_f :: "bool \<Rightarrow> nat \<Rightarrow> json \<Rightarrow> exn + string" where
  "py_format_f comma prec v =
     (case v of
        JFloat x \<Rightarrow> Inr (format_float comma prec x)
      | JInt n \<Rightarrow> map_sum id (format_float comma prec) (int_to_float n)
      | JBool b \<Rightarrow> map_sum id (format_float comma prec) (int_to_float (if b then 1 else 0))
      | JStr s \<Rightarrow> Inl (Exn ValueError
                  (''Unknown format code '' @ quoted ''f'' @ '' for object of type '' @ quoted ''str''))
      | _ \<Rightarrow> Inl (Exn TypeError
                 (''unsupported format string passed to '' @ type_name v @ ''.__format__'')))"

text \<open>
  \<^verbatim>\<open>str(v)\<close>, as an f-string field without a format specification applies it. The
  shortest round-trip representation of a float and the \<^verbatim>\<open>repr\<close> of a container are
  not modelled: they are the parameter \<open>rp\<close>.
\<close>

definition py_str :: "(json \<Rightarrow> string) \<Rightarrow> json \<Rightarrow> string" where
  "py_str rp v =
     (case v of
        JStr s \<Rightarrow> s
      | JNull \<Rightarrow> ''None''
      | JBool b \<Rightarrow> (if b then ''True'' else ''False'')
      | JInt n \<Rightarrow> str_int n
      | _ \<Rightarrow> rp v)"

text \<open>
  Iteration over a value (\<^verbatim>\<open>for x in v\<close>): the elements of a list, the keys of a
  dict, the characters of a string (each a string of one code point, that is a lead
  code unit with its continuation units); any other value is not iterable.
\<close>

definition is_continuation :: "char \<Rightarrow> bool" where
  "is_continuation c = ((of_char c :: nat) div 64 = 2)"

function utf8_chars :: "string \<Rightarrow> string list" where
  "utf8_chars [] = []"
| "utf8_chars (c # cs) =
     (c # takeWhile is_continuation cs) # utf8_chars (dropWhile is_continuation cs)"
  by pat_completeness auto
termination
  by (relation "measure length") (auto simp: less_Suc_eq_le length_dropWhile_le)

definition py_iter :: "json \<Rightarrow> exn + json list" where
  "py_iter v =
     (case v of
        JArr xs \<Rightarrow> Inr xs
      | JObj kvs \<Rightarrow> Inr (map (\<lambda>kv. JStr (fst kv)) kvs)
      | JStr s \<Rightarrow> Inr (map JStr (utf8_chars s))
      | _ \<Rightarrow> Inl (Exn TypeError (quoted (type_name v) @ '' object is not iterable'')))"

section \<open>Effects\<close>

text \<open>
  A run of the script is observed through the elements it renders and the requests it
  sends, in order. Input widgets are represented by the values they return. A computation
  yields the events it produced and either its value or the exception that ended it.
  The type \<open>'df\<close> is the type of pandas data frames. \<open>StColumns\<close> carries the
  relative widths of the columns (\<^verbatim>\<open>st.columns(3)\<close> is three equal ones); the column
  or spinner an element is placed in is not recorded.
\<close>

datatype 'df event =
    HttpPost string json
  | StHeader string
  | StSubheader string
  | StMarkdown string
  | StWrite string
  | StSuccess string
  | StError string
  | StWarning string
  | StInfo string
  | StColumns "nat list"
  | StSpinner string
  | StMetric string string "string option"
  | StDataframe 'df bool
  | StDownloadButton string string string string

type_synonym ('df, 'a) io = "'df event list \<times> (exn + 'a)"

definition ret :: "'a \<Rightarrow> ('df, 'a) io" where
  "ret x = ([], Inr x)"

definition lift :: "exn + 'a \<Rightarrow> ('df, 'a) io" where
  "lift r = ([], r)"

definition emit :: "'df event \<Rightarrow> ('df, unit) io" where
  "emit ev = ([ev], Inr ())"

definition bind :: "('df, 'a) io \<Rightarrow> ('a \<Rightarrow> ('df, 'b) io) \<Rightarrow> ('df, 'b) io" where
  "bind m f =
     (case m of
        (es, Inl e) \<Rightarrow> (es, Inl e)
      | (es, Inr x) \<Rightarrow> (case f x of (es', r) \<Rightarrow> (es @ es', r)))"

definition seq :: "('df, unit) io \<Rightarrow> ('df, 'b) io \<Rightarrow> ('df, 'b) io" where
  "seq m n = bind m (\<lambda>_. n)"

fun for_each :: "'a list \<Rightarrow> ('a \<Rightarrow> ('df, unit) io) \<Rightarrow> ('df, unit) io" where
  "for_each [] body = ret ()"
| "for_each (x # xs) body = seq (body x) (for_each xs body)"

section \<open>The symbols of the messages\<close>

definition clipboard :: string where
  "clipboard = [CHR 0xF0, CHR 0x9F, CHR 0x93, CHR 0x8B]"

definition check_mark :: string where
  "check_mark = [CHR 0xE2, CHR 0x9C, CHR 0x85]"

definition cross_mark :: string where
  "cross_mark = [CHR 0xE2, CHR 0x9D, CHR 0x8C]"

definition bullet :: string where
  "bullet = [CHR 0xE2, CHR 0x80, CHR 0xA2]"

definition light_bulb :: string where
  "light_bulb = [CHR 0xF0, CHR 0x9F, CHR 0x92, CHR 0xA1]"

definition bar_chart :: string where
  "bar_chart = [CHR 0xF0, CHR 0x9F, CHR 0x93, CHR 0x8A]"

definition direct_hit :: string where
  "direct_hit = [CHR 0xF0, CHR 0x9F, CHR 0x8E, CHR 0xAF]"

definition party_popper :: string where
  "party_popper = [CHR 0xF0, CHR 0x9F, CHR 0x8E, CHR 0x89]"

definition bank :: string where
  "bank = [CHR 0xF0, CHR 0x9F, CHR 0x8F, CHR 0xA6]"

definition inbox_tray :: string where
  "inbox_tray = [CHR 0xF0, CHR 0x9F, CHR 0x93, CHR 0xA5]"

section \<open>The HTTP client adapter\<close>

text \<open>
  The backend is a parameter: what \<^verbatim>\<open>requests.post(url, json=payload)\<close> does. It raises
  or answers; for an answer, \<open>status_error\<close> is what \<^verbatim>\<open>raise_for_status()\<close> raises, if
  anything, and \<open>json_body\<close> what \<^verbatim>\<open>json()\<close> returns or raises. The class of an
  exception is the first of \<open>ConnectionError\<close>, \<open>RequestException\<close> and the other classes
  it is an instance of, which is the order of the \<^verbatim>\<open>except\<close> clauses.
\<close>

record response =
  status_error :: "exn option"
  json_body :: "exn + json"

type_synonym network = "string \<Rightarrow> json \<Rightarrow> exn + response"

definition FASTAPI_BACKEND_URL :: string where
  "FASTAPI_BACKEND_URL = ''http://backend:8000''"

definition post_json :: "network \<Rightarrow> string \<Rightarrow> json \<Rightarrow> exn + json" where
  "post_json net url payload =
     (case net url payload of
        Inl e \<Rightarrow> Inl e
      | Inr resp \<Rightarrow>
          (case status_error resp of
             Some e \<Rightarrow> Inl e
           | None \<Rightarrow> json_body resp))"

fun error_text :: "exn \<Rightarrow> string" where
  "error_text (Exn ConnectionError m) = ''Could not connect to backend at '' @ FASTAPI_BACKEND_URL"
| "error_text (Exn RequestException m) = ''Request error: '' @ m"
| "error_text (Exn c m) = ''Unexpected error: '' @ m"

text \<open>The returned pair is \<open>(result, error)\<close>; Python's \<^verbatim>\<open>None\<close> is \<open>JNull\<close> and \<open>None\<close>.\<close>

definition make_request ::
  "network \<Rightarrow> string \<Rightarrow> json \<Rightarrow> ('df, json \<times> string option) io" where
  "make_request net endpoint payload =
     (let url = FASTAPI_BACKEND_URL @ ''/'' @ endpoint
      in seq (emit (HttpPost url payload))
           (case post_json net url payload of
              Inr body \<Rightarrow> ret (body, None)
            | Inl e \<Rightarrow> ret (JNull, Some (error_text e))))"

section \<open>The result renderer\<close>

definition display_result ::
  "(json \<Rightarrow> string) \<Rightarrow> json \<Rightarrow> string option \<Rightarrow> ('df, json) io" where
  "display_result rp result error_msg =
     (if error_msg \<noteq> None \<and> error_msg \<noteq> Some []
      then seq (emit (StError (the error_msg))) (ret JNull)
      else bind (lift (py_get result ''error'' JNull)) (\<lambda>err.
           if truthy err
           then bind (lift (py_get result ''error_message'' (JStr ''Unknown error''))) (\<lambda>msg.
                seq (emit (StError (''Error: '' @ py_str rp msg))) (ret JNull))
           else ret result))"

text \<open>
  The same function with the objects in an explicit store, to say what it leaves behind:
  \<open>result\<close> is \<^verbatim>\<open>None\<close> or the address of the decoded object, and the function
  returns the store with its value. Lines 23 to 33 only call \<^verbatim>\<open>result.get\<close>, which
  reads; no statement assigns to \<open>result\<close> or to one of its items.
\<close>

datatype pyref = NoneRef | Ref nat

type_synonym store = "nat \<Rightarrow> json"

definition deref :: "store \<Rightarrow> pyref \<Rightarrow> json" where
  "deref st r = (case r of NoneRef \<Rightarrow> JNull | Ref a \<Rightarrow> st a)"

definition store_get :: "store \<Rightarrow> pyref \<Rightarrow> string \<Rightarrow> json \<Rightarrow> (exn + json) \<times> store" where
  "store_get st r k dflt = (py_get (deref st r) k dflt, st)"

definition display_result_store ::
  "(json \<Rightarrow> string) \<Rightarrow> store \<Rightarrow> pyref \<Rightarrow> string option \<Rightarrow> ('df, pyref) io \<times> store" where
  "display_result_store rp st result error_msg =
     (if error_msg \<noteq> None \<and> error_msg \<noteq> Some []
      then (seq (emit (StError (the error_msg))) (ret NoneRef), st)
      else case store_get st result ''error'' JNull of
             (Inl e, st1) \<Rightarrow> (lift (Inl e), st1)
           | (Inr err, st1) \<Rightarrow>
               if truthy err
               then (case store_get st1 result ''error_message'' (JStr ''Unknown error'') of
                       (Inl e, st2) \<Rightarrow> (lift (Inl e), st2)
                     | (Inr msg, st2) \<Rightarrow>
                         (seq (emit (StError (''Error: '' @ py_str rp msg))) (ret NoneRef), st2))
               else (ret result, st1))"

section \<open>The eligibility panel\<close>

text \<open>\<^verbatim>\<open>f"UGX {x:,.2f}"\<close>\<close>

definition ugx :: "json \<Rightarrow> exn + string" where
  "ugx x = map_sum id (\<lambda>s. ''UGX '' @ s) (py_format_f True 2 x)"

definition display_eligibility_details :: "(json \<Rightarrow> string) \<Rightarrow> json \<Rightarrow> ('df, unit) io" where
  "display_eligibility_details rp eligibility_details =
     (if \<not> truthy eligibility_details then ret ()
      else
        seq (emit (StSubheader (clipboard @ '' Eligibility Criteria Check'')))
       (seq (emit (StColumns [2, 2]))
       (bind (lift (py_get eligibility_details ''salary_check'' JNull)) (\<lambda>salary_check.
        seq (if truthy salary_check
             then emit (StSuccess (check_mark @ '' Minimum salary requirement met''))
             else emit (StError (cross_mark @ '' Minimum salary requirement not met'')))
       (bind (lift (py_get eligibility_details ''pay_frequency_check'' JNull)) (\<lambda>pay_frequency_check.
        seq (if truthy pay_frequency_check
             then emit (StSuccess (check_mark @ '' Valid pay frequency''))
             else emit (StError (cross_mark @ '' Invalid pay frequency'')))
       (bind (lift (py_get eligibility_details ''amount_check'' JNull)) (\<lambda>amount_check.
        seq (if truthy amount_check
             then emit (StSuccess (check_mark @ '' Valid advance amount''))
             else emit (StError (cross_mark @ '' Invalid advance amount'')))
       (bind (lift (py_get eligibility_details ''advance_limit_check'' JNull)) (\<lambda>advance_limit_check.
        seq (if truthy advance_limit_check
             then emit (StSuccess (check_mark @ '' Within advance limit''))
             else emit (StError (cross_mark @ '' Exceeds maximum advance limit'')))
       (bind (lift (py_get eligibility_details ''max_eligible_advance'' JNull)) (\<lambda>max_eligible.
        seq (if max_eligible \<noteq> JNull
             then bind (lift (ugx max_eligible)) (\<lambda>amount.
                  emit (StMetric ''Max Eligible Advance'' amount
                    (Some ''Maximum advance amount you can request based on your salary'')))
             else ret ())
       (bind (lift (py_get eligibility_details ''failed_criteria'' (JArr []))) (\<lambda>failed_criteria.
        if truthy failed_criteria
        then
          seq (emit (StSubheader (cross_mark @ '' Issues to Address:'')))
         (bind (lift (py_iter failed_criteria)) (\<lambda>criteria.
          seq (for_each criteria (\<lambda>criterion.
                 emit (StError (bullet @ '' '' @ py_str rp criterion))))
         (seq (emit (StSubheader (light_bulb @ '' How to Become Eligible:'')))
         (bind (lift (py_get eligibility_details ''salary_check'' JNull)) (\<lambda>salary_check.
          seq (if \<not> truthy salary_check
               then emit (StInfo (bullet @ '' Increase your gross salary to at least UGX 200,000''))
               else ret ())
         (bind (lift (py_get eligibility_details ''advance_limit_check'' JNull)) (\<lambda>advance_limit_check.
          seq (if \<not> truthy advance_limit_check \<and> truthy max_eligible
               then bind (lift (ugx max_eligible)) (\<lambda>amount.
                    emit (StInfo (bullet @ '' Reduce your requested advance amount to ''
                                  @ amount @ '' or less'')))
               else ret ())
         (bind (lift (py_get eligibility_details ''pay_frequency_check'' JNull)) (\<lambda>pay_frequency_check.
          if \<not> truthy pay_frequency_check
          then emit (StInfo (bullet @ '' Ensure your pay frequency is one of: ''
                             @ ''Weekly, Bi-weekly, Semi-monthly, or Monthly''))
          else ret ())))))))))
        else ret ()))))))))))))))"

section \<open>The advance flow\<close>

text \<open>
  The branch of the script for the option \<^verbatim>\<open>Get Salary Advance\<close>. The arguments are the
  values of the text input, the number inputs and the select box, and whether the button
  was pressed in this run.
\<close>

definition advance_payload :: "string \<Rightarrow> pyfloat \<Rightarrow> string \<Rightarrow> pyfloat \<Rightarrow> json" where
  "advance_payload employee_id gross_salary pay_frequency requested_advance_amount =
     JObj [(''gross_salary'', JFloat gross_salary),
           (''pay_frequency'', JStr pay_frequency),
           (''employee_id'', JStr employee_id),
           (''salary_advance'',
              JObj [(''requested_advance_amount'', JFloat requested_advance_amount)])]"

definition advance_section ::
  "(json \<Rightarrow> string) \<Rightarrow> network \<Rightarrow> string \<Rightarrow> pyfloat \<Rightarrow> string \<Rightarrow> pyfloat \<Rightarrow> bool
     \<Rightarrow> ('df, unit) io" where
  "advance_section rp net employee_id gross_salary pay_frequency requested_advance_amount button =
     seq (emit (StHeader (bar_chart @ '' Salary Advance Request'')))
     (if button then
        if employee_id = [] then emit (StError ''Please enter your Employee ID.'')
        else
          seq (emit (StSpinner ''Processing...''))
         (bind (make_request net ''calculate_advance''
                  (advance_payload employee_id gross_salary pay_frequency requested_advance_amount))
            (\<lambda>(result, error).
          bind (display_result rp result error) (\<lambda>result.
          if truthy result then
            bind (lift (py_get result ''eligibility_details'' JNull)) (\<lambda>eligibility_details.
            seq (display_eligibility_details rp eligibility_details)
           (seq (emit (StMarkdown ''---''))
           (seq (emit (StSubheader (direct_hit @ '' Final Result:'')))
           (bind (lift (py_get result ''advance_eligible'' JNull)) (\<lambda>advance_eligible.
            if truthy advance_eligible then
              bind (lift (py_get result ''advance_message'' JNull)) (\<lambda>advance_message.
              seq (emit (StSuccess (''**Status:** '' @ py_str rp advance_message)))
             (bind (lift (py_get result ''approved_advance_amount'' (JInt 0))) (\<lambda>approved.
              bind (lift (py_format_f True 2 approved)) (\<lambda>amount.
              seq (emit (StWrite (''**Approved Amount:** UGX '' @ amount)))
             (seq (emit (StInfo (party_popper
                      @ '' Your salary advance has been processed and recorded!'')))
             (seq (emit (StSubheader (clipboard @ '' Next Steps:'')))
             (seq (emit (StWrite ''1. Your advance will be disbursed within 24 hours''))
             (seq (emit (StWrite ''2. The amount will be deducted from your next salary''))
                  (emit (StWrite (''3. Check the '' @ quoted ''All Recorded Loans''
                                  @ '' section below to view details'')))))))))))
            else
              bind (lift (py_get result ''advance_message'' JNull)) (\<lambda>advance_message.
              emit (StWarning (''**Status:** '' @ py_str rp advance_message))))))))
          else ret ())))
      else ret ())"

section \<open>The loan flow\<close>

text \<open>
  The pandas library is a parameter: the operations the script calls on data frames
  (\<open>'df\<close>) and on their columns (\<open>'col\<close>), each with the exception it may raise. The
  constructor copies the value it is given, and an assignment \<^verbatim>\<open>df[c] = s\<close>, which
  changes the frame in place, returns the updated frame. \<open>df_to_csv\<close> takes the
  \<^verbatim>\<open>header\<close> and \<^verbatim>\<open>index\<close> arguments of \<^verbatim>\<open>to_csv\<close>; the script leaves
  \<^verbatim>\<open>header\<close> at its default, \<^verbatim>\<open>True\<close>. Its result is a Python string, held here
  as the list of its code points.
\<close>

record ('df, 'col) pandas =
  pd_DataFrame :: "json \<Rightarrow> exn + 'df"
  pd_to_datetime :: "'col \<Rightarrow> exn + 'col"
  df_getitem :: "'df \<Rightarrow> string \<Rightarrow> exn + 'col"
  df_setitem :: "'df \<Rightarrow> string \<Rightarrow> 'col \<Rightarrow> exn + 'df"
  df_columns :: "'df \<Rightarrow> string list"
  df_set_index :: "'df \<Rightarrow> string \<Rightarrow> exn + 'df"
  df_to_csv :: "'df \<Rightarrow> bool \<Rightarrow> bool \<Rightarrow> int list"
  series_apply :: "'col \<Rightarrow> (json \<Rightarrow> exn + json) \<Rightarrow> exn + 'col"

text \<open>
  \<^verbatim>\<open>s.encode("utf-8")\<close> on a string given by its code points: one to four bytes for
  each code point, UnicodeEncodeError for a surrogate.
\<close>

definition utf8_bytes :: "int \<Rightarrow> int list option" where
  "utf8_bytes c =
     (if c < 0 then None
      else if c < 0x80 then Some [c]
      else if c < 0x800 then Some [0xC0 + c div 64, 0x80 + c mod 64]
      else if 0xD800 \<le> c \<and> c \<le> 0xDFFF then None
      else if c < 0x10000
        then Some [0xE0 + c div 4096, 0x80 + (c div 64) mod 64, 0x80 + c mod 64]
      else if c < 0x110000
        then Some [0xF0 + c div 262144, 0x80 + (c div 4096) mod 64,
                   0x80 + (c div 64) mod 64, 0x80 + c mod 64]
      else None)"

fun encode_utf8 :: "int list \<Rightarrow> exn + string" where
  "encode_utf8 [] = Inr []"
| "encode_utf8 (c # cs) =
     (case utf8_bytes c of
        None \<Rightarrow> Inl (Exn UnicodeEncodeError ''surrogates not allowed'')
      | Some bytes \<Rightarrow> map_sum id (\<lambda>rest. map char_of bytes @ rest) (encode_utf8 cs))"

definition currency_cols :: "string list" where
  "currency_cols =
     [''Beginning_Balance'', ''Monthly_Payment'', ''Interest_Paid'', ''Principal_Paid'',
      ''Ending_Balance'']"

fun format_columns :: "('df, 'col) pandas \<Rightarrow> string list \<Rightarrow> 'df \<Rightarrow> ('df, 'df) io" where
  "format_columns pd [] df = ret df"
| "format_columns pd (col # cols) df =
     (if col \<in> set (df_columns pd df)
      then bind (lift (df_getitem pd df col)) (\<lambda>series.
           bind (lift (series_apply pd series (\<lambda>x. map_sum id JStr (ugx x)))) (\<lambda>formatted.
           bind (lift (df_setitem pd df col formatted)) (\<lambda>df.
           format_columns pd cols df)))
      else format_columns pd cols df)"

definition loan_payload :: "string \<Rightarrow> pyfloat \<Rightarrow> pyfloat \<Rightarrow> int \<Rightarrow> json" where
  "loan_payload employee_id loan_amount interest_rate loan_term_months =
     JObj [(''employee_id'', JStr employee_id),
           (''loan_amount'', JFloat loan_amount),
           (''annual_interest_rate'', JFloat interest_rate),
           (''loan_term_months'', JInt loan_term_months)]"

definition csv_file_name :: "string \<Rightarrow> int \<Rightarrow> string" where
  "csv_file_name employee_id loan_term_months =
     ''amortization_schedule_'' @ employee_id @ ''_'' @ str_int loan_term_months
       @ ''months.csv''"

text \<open>The block under \<^verbatim>\<open>if schedule:\<close>.\<close>

definition show_schedule ::
  "('df, 'col) pandas \<Rightarrow> string \<Rightarrow> int \<Rightarrow> json \<Rightarrow> ('df, unit) io" where
  "show_schedule pd employee_id loan_term_months schedule =
     seq (emit (StWrite (''### '' @ bar_chart @ '' Amortization Schedule'')))
    (bind (lift (pd_DataFrame pd schedule)) (\<lambda>df.
     bind (lift (df_getitem pd df ''Payment_Date'')) (\<lambda>dates.
     bind (lift (pd_to_datetime pd dates)) (\<lambda>parsed.
     bind (lift (df_setitem pd df ''Payment_Date'' parsed)) (\<lambda>df.
     bind (format_columns pd currency_cols df) (\<lambda>df.
     bind (lift (df_set_index pd df ''Payment_Number'')) (\<lambda>indexed.
     seq (emit (StDataframe indexed True))
    (bind (lift (pd_DataFrame pd schedule)) (\<lambda>raw.
     bind (lift (encode_utf8 (df_to_csv pd raw True False))) (\<lambda>csv.
     emit (StDownloadButton (inbox_tray @ '' Download Schedule as CSV'')
             csv
             (csv_file_name employee_id loan_term_months)
             ''text/csv'')))))))))))"

text \<open>
  The branch of the script for the option \<^verbatim>\<open>Get Personal Loan\<close>. \<open>slider\<close> is the
  value of the interest slider, a percentage; the script divides it by the integer 100,
  which Python converts to the float 100.0, as it does in \<^verbatim>\<open>interest_rate*100\<close>.
\<close>

definition loan_section ::
  "(json \<Rightarrow> string) \<Rightarrow> ('df, 'col) pandas \<Rightarrow> network \<Rightarrow> string \<Rightarrow> pyfloat \<Rightarrow> pyfloat
     \<Rightarrow> int \<Rightarrow> bool \<Rightarrow> ('df, unit) io" where
  "loan_section rp pd net employee_id loan_amount slider loan_term_months button =
     seq (emit (StHeader (bank @ '' Personal Loan Request'')))
    (bind (lift (float_truediv slider (Finite False 100))) (\<lambda>interest_rate.
     if button then
       if employee_id = [] then emit (StError ''Please enter your Employee ID.'')
       else
         seq (emit (StSpinner ''Calculating...''))
        (bind (make_request net ''calculate_loan''
                 (loan_payload employee_id loan_amount interest_rate loan_term_months))
           (\<lambda>(result, error).
         bind (display_result rp result error) (\<lambda>result.
         bind (if truthy result then lift (py_get result ''loan_requested'' JNull)
               else ret result) (\<lambda>requested.
         if truthy requested then
           seq (emit (StSubheader ''Personal Loan Result:''))
          (seq (emit (StSuccess (party_popper @ '' Loan calculation successful!'')))
          (seq (emit (StColumns [1, 1, 1]))
          (seq (emit (StMetric ''Loan Amount'' (''UGX '' @ py_str rp (JFloat loan_amount)) None))
          (seq (emit (StMetric ''Interest Rate''
                  (format_float False 1 (float_mul interest_rate (Finite False 100)) @ ''%'')
                  None))
          (seq (emit (StMetric ''Loan Term'' (str_int loan_term_months @ '' months'') None))
          (bind (lift (py_get result ''loan_total_repayable_amount'' (JInt 0))) (\<lambda>total.
           bind (lift (py_format_f True 2 total)) (\<lambda>amount.
           seq (emit (StWrite (''**Total Repayable:** UGX '' @ amount)))
          (bind (lift (py_get result ''loan_amortization_schedule'' JNull)) (\<lambda>schedule.
           if truthy schedule
           then show_schedule pd employee_id loan_term_months schedule
           else emit (StInfo ''No amortization schedule available.'')))))))))))
         else ret ()))))
     else ret ()))"

section \<open>Example inputs and vocabulary of the statements\<close>

text \<open>A backend that answers every request with the same decoded body, and one that fails.\<close>

definition const_backend :: "json \<Rightarrow> network" where
  "const_backend body url payload = Inr \<lparr>status_error = None, json_body = Inr body\<rparr>"

definition null_backend :: network where
  "null_backend = const_backend JNull"

definition failing_backend :: "exn \<Rightarrow> network" where
  "failing_backend e url payload = Inl e"

definition plain_repr :: "json \<Rightarrow> string" where
  "plain_repr v = ''?''"

definition is_dict :: "json \<Rightarrow> bool" where
  "is_dict v = (case v of JObj kvs \<Rightarrow> True | _ \<Rightarrow> False)"

text \<open>
  What the panel shows: the indicator of a check, the six leading events, the line of a
  failed criterion, the three hints.
\<close>

definition indicator :: "json \<Rightarrow> string \<Rightarrow> string \<Rightarrow> 'df event" where
  "indicator v met not_met =
     (if truthy v then StSuccess (check_mark @ met) else StError (cross_mark @ not_met))"

definition check_events :: "(string \<times> json) list \<Rightarrow> 'df event list" where
  "check_events kvs =
     [StSubheader (clipboard @ '' Eligibility Criteria Check''),
      StColumns [2, 2],
      indicator (dict_get kvs ''salary_check'' JNull)
        '' Minimum salary requirement met'' '' Minimum salary requirement not met'',
      indicator (dict_get kvs ''pay_frequency_check'' JNull)
        '' Valid pay frequency'' '' Invalid pay frequency'',
      indicator (dict_get kvs ''amount_check'' JNull)
        '' Valid advance amount'' '' Invalid advance amount'',
      indicator (dict_get kvs ''advance_limit_check'' JNull)
        '' Within advance limit'' '' Exceeds maximum advance limit'']"

definition criterion_line :: "(json \<Rightarrow> string) \<Rightarrow> json \<Rightarrow> 'df event" where
  "criterion_line rp c = StError (bullet @ '' '' @ py_str rp c)"

definition is_criterion_line :: "'df event \<Rightarrow> bool" where
  "is_criterion_line ev = (case ev of StError s \<Rightarrow> take 4 s = bullet @ '' '' | _ \<Rightarrow> False)"

definition salary_hint :: "'df event" where
  "salary_hint = StInfo (bullet @ '' Increase your gross salary to at least UGX 200,000'')"

definition frequency_hint :: "'df event" where
  "frequency_hint =
     StInfo (bullet @ '' Ensure your pay frequency is one of: Weekly, Bi-weekly, Semi-monthly, or Monthly'')"

definition amount_hint :: "string \<Rightarrow> 'df event" where
  "amount_hint amount =
     StInfo (bullet @ '' Reduce your requested advance amount to '' @ amount @ '' or less'')"

text \<open>The eligibility details of a declined and of an unmet-salary answer.\<close>

definition declined_details :: json where
  "declined_details =
     JObj [(''salary_check'', JBool True),
           (''pay_frequency_check'', JBool True),
           (''amount_check'', JBool True),
           (''advance_limit_check'', JBool False),
           (''max_eligible_advance'', JInt 300000),
           (''failed_criteria'', JArr [JStr ''Exceeds maximum advance limit''])]"

definition unmet_salary_details :: json where
  "unmet_salary_details =
     JObj [(''salary_check'', JBool False),
           (''pay_frequency_check'', JBool True),
           (''amount_check'', JBool True),
           (''advance_limit_check'', JBool True),
           (''max_eligible_advance'', JNull),
           (''failed_criteria'', JArr [])]"

definition metric_events :: "json \<Rightarrow> string \<Rightarrow> 'df event list" where
  "metric_events max_eligible amount =
     (if max_eligible \<noteq> JNull
      then [StMetric ''Max Eligible Advance'' amount
              (Some ''Maximum advance amount you can request based on your salary'')]
      else [])"

definition hint_events :: "(string \<times> json) list \<Rightarrow> string \<Rightarrow> 'df event list" where
  "hint_events kvs amount =
     (if \<not> truthy (dict_get kvs ''salary_check'' JNull) then [salary_hint] else [])
     @ (if \<not> truthy (dict_get kvs ''advance_limit_check'' JNull)
           \<and> truthy (dict_get kvs ''max_eligible_advance'' JNull)
        then [amount_hint amount] else [])
     @ (if \<not> truthy (dict_get kvs ''pay_frequency_check'' JNull) then [frequency_hint] else [])"

text \<open>What the loan flow shows before and after the answer, and example answers.\<close>

definition summary_events :: "(json \<Rightarrow> string) \<Rightarrow> pyfloat \<Rightarrow> pyfloat \<Rightarrow> int \<Rightarrow> 'df event list" where
  "summary_events rp loan_amount rate term =
     [StSubheader ''Personal Loan Result:'',
      StSuccess (party_popper @ '' Loan calculation successful!''),
      StColumns [1, 1, 1],
      StMetric ''Loan Amount'' (''UGX '' @ py_str rp (JFloat loan_amount)) None,
      StMetric ''Interest Rate''
        (format_float False 1 (float_mul rate (Finite False 100)) @ ''%'') None,
      StMetric ''Loan Term'' (str_int term @ '' months'') None]"

definition request_events :: "string \<Rightarrow> pyfloat \<Rightarrow> pyfloat \<Rightarrow> int \<Rightarrow> 'df event list" where
  "request_events employee_id loan_amount rate term =
     [StHeader (bank @ '' Personal Loan Request''),
      StSpinner ''Calculating...'',
      HttpPost (FASTAPI_BACKEND_URL @ ''/calculate_loan'')
        (loan_payload employee_id loan_amount rate term)]"

definition loan_answer :: json where
  "loan_answer = JObj [(''loan_requested'', JBool True)]"

text \<open>An answer whose total is null, and details whose maximum is beyond the float range.\<close>

definition null_total_answer :: json where
  "null_total_answer =
     JObj [(''loan_requested'', JBool True), (''loan_total_repayable_amount'', JNull)]"

definition huge_advance :: int where
  "huge_advance = 2 ^ 1024"

definition overflow_details :: json where
  "overflow_details =
     JObj [(''salary_check'', JBool True),
           (''pay_frequency_check'', JBool False),
           (''amount_check'', JBool True),
           (''advance_limit_check'', JBool False),
           (''max_eligible_advance'', JInt huge_advance),
           (''failed_criteria'',
              JArr [JStr ''Invalid pay frequency'', JStr ''Exceeds maximum advance limit''])]"

text \<open>Details whose failed criteria are neither sorted nor free of repetition.\<close>

definition repeated_details :: json where
  "repeated_details =
     JObj [(''salary_check'', JBool True),
           (''pay_frequency_check'', JBool False),
           (''amount_check'', JBool True),
           (''advance_limit_check'', JBool False),
           (''max_eligible_advance'', JInt 300000),
           (''failed_criteria'',
              JArr [JStr ''Invalid pay frequency'', JStr ''Exceeds maximum advance limit'',
                    JStr ''Invalid pay frequency''])]"

text \<open>A store with one decoded object.\<close>

definition loan_store :: store where
  "loan_store a = JObj [(''loan_requested'', JBool True)]"

text \<open>The value of a decimal numeral, to read back what \<open>str_int\<close> writes.\<close>

definition decimal_value :: "string \<Rightarrow> int" where
  "decimal_value s = foldl (\<lambda>acc c. 10 * acc + (of_char c - 48)) 0 s"

text \<open>
  A small pandas: a frame is its index column, if any, and its rows, each a list of
  cells by column name; a column is the list of its cells. \<^verbatim>\<open>to_csv\<close> writes the
  header line when asked to, then a line for each row; cells are written as \<open>py_str\<close>
  writes them, and the index, when asked for, is not written.
\<close>

datatype frame = Frame "string option" "(string \<times> json) list list"

definition frame_columns :: "frame \<Rightarrow> string list" where
  "frame_columns df = (case df of Frame idx [] \<Rightarrow> [] | Frame idx (row # rows) \<Rightarrow> map fst row)"

definition frame_rows :: "frame \<Rightarrow> (string \<times> json) list list" where
  "frame_rows df = (case df of Frame idx rows \<Rightarrow> rows)"

fun traverse :: "('a \<Rightarrow> exn + 'b) \<Rightarrow> 'a list \<Rightarrow> exn + 'b list" where
  "traverse f [] = Inr []"
| "traverse f (x # xs) =
     (case f x of Inl e \<Rightarrow> Inl e | Inr y \<Rightarrow> map_sum id ((#) y) (traverse f xs))"

fun set_cell :: "string \<Rightarrow> json \<Rightarrow> (string \<times> json) list \<Rightarrow> (string \<times> json) list" where
  "set_cell k v [] = [(k, v)]"
| "set_cell k v (kv # kvs) = (if fst kv = k then (k, v) # kvs else kv # set_cell k v kvs)"

fun set_column :: "string \<Rightarrow> json list \<Rightarrow> (string \<times> json) list list \<Rightarrow> (string \<times> json) list list" where
  "set_column k (v # vs) (row # rows) = set_cell k v row # set_column k vs rows"
| "set_column k vs rows = rows"

definition ascii_text :: "string \<Rightarrow> int list" where
  "ascii_text s = map of_char s"

fun comma_joined :: "int list list \<Rightarrow> int list" where
  "comma_joined [] = []"
| "comma_joined [x] = x"
| "comma_joined (x # y # ys) = x @ [44] @ comma_joined (y # ys)"

definition csv_line :: "int list list \<Rightarrow> int list" where
  "csv_line cells = comma_joined cells @ [10]"

definition frame_to_csv :: "frame \<Rightarrow> bool \<Rightarrow> bool \<Rightarrow> int list" where
  "frame_to_csv df header index =
     (if header then csv_line (map ascii_text (frame_columns df)) else [])
     @ concat (map (\<lambda>row. csv_line (map (\<lambda>kv. ascii_text (py_str plain_repr (snd kv))) row))
                 (frame_rows df))"

definition table_pandas :: "(frame, json list) pandas" where
  "table_pandas =
     \<lparr>pd_DataFrame =
        (\<lambda>v. case v of
               JArr records \<Rightarrow>
                 Inr (Frame None (map (\<lambda>r. case r of JObj kvs \<Rightarrow> kvs | _ \<Rightarrow> []) records))
             | _ \<Rightarrow> Inl (Exn ValueError ''DataFrame constructor not properly called!'')),
      pd_to_datetime = Inr,
      df_getitem =
        (\<lambda>df col. if col \<in> set (frame_columns df)
                  then Inr (map (\<lambda>row. dict_get row col JNull) (frame_rows df))
                  else Inl (Exn KeyError col)),
      df_setitem =
        (\<lambda>df col cells. case df of Frame idx rows \<Rightarrow> Inr (Frame idx (set_column col cells rows))),
      df_columns = frame_columns,
      df_set_index =
        (\<lambda>df col. if col \<in> set (frame_columns df)
                  then Inr (Frame (Some col) (frame_rows df))
                  else Inl (Exn KeyError col)),
      df_to_csv = frame_to_csv,
      series_apply = (\<lambda>cells f. traverse f cells)\<rparr>"

definition two_row_schedule :: json where
  "two_row_schedule =
     JArr [JObj [(''Payment_Number'', JInt 1),
                 (''Payment_Date'', JStr ''2025-01-31''),
                 (''Beginning_Balance'', JInt 300000),
                 (''Ending_Balance'', JInt 0)],
           JObj [(''Payment_Number'', JInt 2),
                 (''Payment_Date'', JStr ''2025-02-28''),
                 (''Beginning_Balance'', JInt 0),
                 (''Ending_Balance'', JInt 0)]]"

text \<open>A stand-in for pandas on which every operation succeeds; frames are JSON values.\<close>

definition stub_pandas :: "(json, json) pandas" where
  "stub_pandas =
     \<lparr>pd_DataFrame = Inr,
      pd_to_datetime = Inr,
      df_getitem = (\<lambda>df col. Inr df),
      df_setitem = (\<lambda>df col series. Inr df),
      df_columns = (\<lambda>df. []),
      df_set_index = (\<lambda>df col. Inr df),
      df_to_csv = (\<lambda>df header index. []),
      series_apply = (\<lambda>series f. Inr series)\<rparr>"

section \<open>Laws of the effects\<close>

lemma bind_lift_Inr [simp]: "bind (lift (Inr x)) f = f x"
  by (simp add: bind_def lift_def split: prod.splits)

lemma bind_lift_Inl [simp]: "bind (lift (Inl e)) f = ([], Inl e)"
  by (simp add: bind_def lift_def)

lemma bind_ret [simp]: "bind (ret x) f = f x"
  by (simp add: bind_def ret_def split: prod.splits)

lemma seq_emit [simp]: "seq (emit ev) m = (ev # fst m, snd m)"
  by (simp add: seq_def bind_def emit_def split: prod.splits)

lemma fst_bind: "fst (bind m f) = fst m @ (case snd m of Inl e \<Rightarrow> [] | Inr x \<Rightarrow> fst (f x))"
  by (cases m) (auto simp: bind_def split: sum.splits prod.splits)

lemma snd_bind: "snd (bind m f) = (case snd m of Inl e \<Rightarrow> Inl e | Inr x \<Rightarrow> snd (f x))"
  by (cases m) (auto simp: bind_def split: sum.splits prod.splits)

lemma bind_Inr [simp]: "bind (es, Inr x) f = (es @ fst (f x), snd (f x))"
  by (simp add: bind_def split: prod.splits)

lemma bind_Inl [simp]: "bind (es, Inl e) f = (es, Inl e)"
  by (simp add: bind_def)

lemma seq_Inr [simp]: "seq (es, Inr u) m = (es @ fst m, snd m)"
  by (simp add: seq_def)

lemma seq_Inl [simp]: "seq (es, Inl e) m = (es, Inl e)"
  by (simp add: seq_def)

lemma seq_ret [simp]: "seq (ret u) m = m"
  by (simp add: seq_def)

lemma emit_if: "(if c then emit a else emit b) = ([if c then a else b], Inr ())"
  by (simp add: emit_def)

lemma emit_or_skip: "(if c then emit a else ret ()) = (if c then [a] else [], Inr ())"
  by (simp add: emit_def ret_def)

lemma for_each_emit: "for_each xs (\<lambda>x. emit (f x)) = (map f xs, Inr ())"
  by (induction xs) (simp_all add: ret_def)

lemma float_truediv_100: "\<exists>r. float_truediv x (Finite False 100) = Inr r"
  by (cases x) simp_all

lemma py_get_dict [simp]: "py_get (JObj kvs) k d = Inr (dict_get kvs k d)"
  by (simp add: py_get_def)

section \<open>The HTTP client adapter: one attempt, a result or an error\<close>

lemma make_request_eq:
  "make_request net endpoint payload =
     ([HttpPost (FASTAPI_BACKEND_URL @ ''/'' @ endpoint) payload],
      Inr (case post_json net (FASTAPI_BACKEND_URL @ ''/'' @ endpoint) payload of
             Inr body \<Rightarrow> (body, None)
           | Inl e \<Rightarrow> (JNull, Some (error_text e))))"
  by (simp add: make_request_def Let_def ret_def split: sum.splits)

lemma error_text_nonempty: "error_text e \<noteq> []"
  by (cases e rule: error_text.cases) simp_all

text \<open>
  Claim C2, as amended. \<open>make_request\<close> calls \<^verbatim>\<open>requests.post\<close> exactly once and never
  raises. It returns either the decoded body with no error, or no result with a non-empty
  error string, so the two components are never both populated. When the attempt raises,
  the error string is the one of the exception's class, and the strings of a connection
  failure, of another request exception and of any other exception are pairwise different.
  When the attempt succeeds the result is the decoded body whatever it is: a body that
  decodes to \<^verbatim>\<open>None\<close> gives a pair with both components empty.
\<close>

theorem make_request_result_or_error:
  "(let r = (make_request net endpoint payload :: ('df, json \<times> string option) io);
        attempt = post_json net (FASTAPI_BACKEND_URL @ ''/'' @ endpoint) payload
    in fst r = [HttpPost (FASTAPI_BACKEND_URL @ ''/'' @ endpoint) payload]
       \<and> ((\<exists>body. snd r = Inr (body, None))
          \<or> (\<exists>msg. msg \<noteq> [] \<and> snd r = Inr (JNull, Some msg)))
       \<and> (\<forall>e. attempt = Inl e \<longrightarrow> snd r = Inr (JNull, Some (error_text e)))
       \<and> (\<forall>body. attempt = Inr body \<longrightarrow> snd r = Inr (body, None)))
   \<and> error_text (Exn ConnectionError m1) \<noteq> error_text (Exn RequestException m2)
   \<and> error_text (Exn ConnectionError m1) \<noteq> error_text (Exn OtherException m3)
   \<and> error_text (Exn RequestException m2) \<noteq> error_text (Exn OtherException m3)"
  by (cases "post_json net (FASTAPI_BACKEND_URL @ ''/'' @ endpoint) payload")
     (simp_all add: make_request_eq error_text_nonempty)

theorem make_request_result_or_error_witness:
  "post_json (failing_backend (Exn RequestException ''timed out''))
      (FASTAPI_BACKEND_URL @ ''/'' @ ''calculate_loan'') (JObj [])
     = Inl (Exn RequestException ''timed out'')
   \<and> (make_request (failing_backend (Exn RequestException ''timed out''))
        ''calculate_loan'' (JObj []) :: (unit, json \<times> string option) io)
     = ([HttpPost ''http://backend:8000/calculate_loan'' (JObj [])],
        Inr (JNull, Some ''Request error: timed out''))"
  using make_request_result_or_error
    [of "failing_backend (Exn RequestException ''timed out'')" "''calculate_loan''" "JObj []",
     where ?'df = unit]
  by (simp add: post_json_def failing_backend_def FASTAPI_BACKEND_URL_def prod_eq_iff Let_def)

text \<open>
  The claim as stated fails: a backend that answers with the JSON body \<^verbatim>\<open>null\<close> makes
  \<open>make_request\<close> return the pair with no result and no error.
\<close>

theorem make_request_both_empty:
  "snd (make_request null_backend ''calculate_advance'' (JObj [])
          :: (unit, json \<times> string option) io)
     = Inr (JNull, None)"
  by (simp add: make_request_eq post_json_def null_backend_def const_backend_def)

section \<open>The result renderer: a gate\<close>

lemma display_result_store_reads:
  "snd (display_result_store rp st r error_msg :: ('df, pyref) io \<times> store) = st"
  "fst (fst (display_result_store rp st r error_msg :: ('df, pyref) io \<times> store))
     = fst (display_result rp (deref st r) error_msg :: ('df, json) io)"
  "map_sum id (deref st) (snd (fst (display_result_store rp st r error_msg
                                     :: ('df, pyref) io \<times> store)))
     = snd (display_result rp (deref st r) error_msg :: ('df, json) io)"
  by (cases "deref st r";
      simp add: display_result_store_def display_result_def store_get_def py_get_def
        deref_def ret_def emit_def lift_def)+

lemma display_result_store_same_object:
  "(error_msg = None \<or> error_msg = Some []) \<Longrightarrow> deref st r = JObj kvs \<Longrightarrow>
   \<not> truthy (dict_get kvs ''error'' JNull) \<Longrightarrow>
   snd (fst (display_result_store rp st r error_msg :: ('df, pyref) io \<times> store)) = Inr r"
  by (auto simp: display_result_store_def store_get_def ret_def)

text \<open>
  Claim C3, as amended. For a pair whose error is a non-empty string, \<open>display_result\<close>
  displays the error and returns nothing. Otherwise, for a result that is a JSON object:
  when its field \<^verbatim>\<open>error\<close> is truthy the message \<^verbatim>\<open>Error: \<close> followed by the field
  \<^verbatim>\<open>error_message\<close> is displayed (\<^verbatim>\<open>Unknown error\<close> when the field is absent) and
  nothing is returned; else nothing is displayed and the result is returned as it is.
  It never mutates the result: on the explicit store, for every pair, the store after
  the call is the store before it, what is displayed and returned is what
  \<open>display_result\<close> displays and returns on the stored value, and the result that passes
  the gate is the same object.
\<close>

theorem display_result_gate:
  "(error_msg = Some s \<and> s \<noteq> [] \<longrightarrow>
      (display_result rp result error_msg :: ('df, json) io) = ([StError s], Inr JNull))
   \<and> ((error_msg = None \<or> error_msg = Some []) \<and> result = JObj kvs
        \<and> truthy (dict_get kvs ''error'' JNull) \<longrightarrow>
      (display_result rp result error_msg :: ('df, json) io) =
        ([StError (''Error: ''
            @ py_str rp (dict_get kvs ''error_message'' (JStr ''Unknown error'')))],
         Inr JNull))
   \<and> (map_of kvs ''error_message'' = None \<longrightarrow>
        ''Error: '' @ py_str rp (dict_get kvs ''error_message'' (JStr ''Unknown error''))
          = ''Error: Unknown error'')
   \<and> ((error_msg = None \<or> error_msg = Some []) \<and> result = JObj kvs
        \<and> \<not> truthy (dict_get kvs ''error'' JNull) \<longrightarrow>
      (display_result rp result error_msg :: ('df, json) io) = ([], Inr result))
   \<and> snd (display_result_store rp st r error_msg :: ('df, pyref) io \<times> store) = st
   \<and> fst (fst (display_result_store rp st r error_msg :: ('df, pyref) io \<times> store))
       = fst (display_result rp (deref st r) error_msg :: ('df, json) io)
   \<and> map_sum id (deref st) (snd (fst (display_result_store rp st r error_msg
                                       :: ('df, pyref) io \<times> store)))
       = snd (display_result rp (deref st r) error_msg :: ('df, json) io)
   \<and> ((error_msg = None \<or> error_msg = Some []) \<and> deref st r = JObj kvs
        \<and> \<not> truthy (dict_get kvs ''error'' JNull) \<longrightarrow>
      snd (fst (display_result_store rp st r error_msg :: ('df, pyref) io \<times> store)) = Inr r)"
proof -
  have gate: "(error_msg = Some s \<and> s \<noteq> [] \<longrightarrow>
      (display_result rp result error_msg :: ('df, json) io) = ([StError s], Inr JNull))
   \<and> ((error_msg = None \<or> error_msg = Some []) \<and> result = JObj kvs
        \<and> truthy (dict_get kvs ''error'' JNull) \<longrightarrow>
      (display_result rp result error_msg :: ('df, json) io) =
        ([StError (''Error: ''
            @ py_str rp (dict_get kvs ''error_message'' (JStr ''Unknown error'')))],
         Inr JNull))
   \<and> (map_of kvs ''error_message'' = None \<longrightarrow>
        ''Error: '' @ py_str rp (dict_get kvs ''error_message'' (JStr ''Unknown error''))
          = ''Error: Unknown error'')
   \<and> ((error_msg = None \<or> error_msg = Some []) \<and> result = JObj kvs
        \<and> \<not> truthy (dict_get kvs ''error'' JNull) \<longrightarrow>
      (display_result rp result error_msg :: ('df, json) io) = ([], Inr result))"
    by (auto simp: display_result_def ret_def dict_get_def py_str_def)
  show ?thesis
    using gate
      display_result_store_reads
        [where rp = rp and st = st and r = r and error_msg = error_msg and ?'df = 'df]
      display_result_store_same_object
        [where rp = rp and st = st and r = r and error_msg = error_msg and kvs = kvs
           and ?'df = 'df]
    by blast
qed

theorem display_result_gate_witness:
  "(display_result plain_repr (JObj [(''error'', JBool True)]) None :: (unit, json) io)
     = ([StError ''Error: Unknown error''], Inr JNull)
   \<and> (display_result plain_repr (JObj [(''loan_requested'', JBool True)]) None
        :: (unit, json) io)
     = ([], Inr (JObj [(''loan_requested'', JBool True)]))
   \<and> (display_result plain_repr JNull (Some ''Request error: timed out'') :: (unit, json) io)
     = ([StError ''Request error: timed out''], Inr JNull)
   \<and> (display_result_store plain_repr loan_store (Ref 0) None :: (unit, pyref) io \<times> store)
     = (([], Inr (Ref 0)), loan_store)"
  using display_result_gate
    [where error_msg = None and s = "[]" and rp = plain_repr
       and result = "JObj [(''error'', JBool True)]" and kvs = "[(''error'', JBool True)]"
       and ?'df = unit]
    display_result_gate
    [where error_msg = None and s = "[]" and rp = plain_repr
       and result = "JObj [(''loan_requested'', JBool True)]"
       and kvs = "[(''loan_requested'', JBool True)]"
       and st = loan_store and r = "Ref 0" and ?'df = unit]
    display_result_gate
    [where error_msg = "Some ''Request error: timed out''" and s = "''Request error: timed out''"
       and rp = plain_repr and result = JNull and kvs = "[]" and ?'df = unit]
  by (simp add: dict_get_def deref_def loan_store_def prod_eq_iff)

text \<open>
  The claim as stated fails for the pair with neither a result nor an error: the lookup
  \<^verbatim>\<open>result.get\<close> raises AttributeError, nothing is returned.
\<close>

theorem display_result_raises_on_none:
  "(display_result plain_repr JNull None :: (unit, json) io)
     = ([], Inl (Exn AttributeError
                  (quoted ''NoneType'' @ '' object has no attribute '' @ quoted ''get'')))"
  by (simp add: display_result_def py_get_def)

lemma display_result_error:
  "s \<noteq> [] \<Longrightarrow> display_result rp r (Some s) = ([StError s], Inr JNull)"
  by (simp add: display_result_def emit_def ret_def)

lemma display_result_dict:
  "display_result rp (JObj kvs) None =
     (if truthy (dict_get kvs ''error'' JNull)
      then ([StError (''Error: ''
              @ py_str rp (dict_get kvs ''error_message'' (JStr ''Unknown error'')))],
            Inr JNull)
      else ([], Inr (JObj kvs)))"
  by (simp add: display_result_def emit_def ret_def)

lemma display_result_not_dict:
  "\<not> is_dict r \<Longrightarrow>
   display_result rp r None =
     ([], Inl (Exn AttributeError
                (quoted (type_name r) @ '' object has no attribute '' @ quoted ''get'')))"
  by (cases r) (simp_all add: display_result_def py_get_def is_dict_def)

text \<open>
  Claim C10, as amended. \<open>display_result\<close> is partial: with neither a result nor an
  error it raises AttributeError. After \<open>make_request\<close>, as both flows call it, it does not
  raise when the request failed (it then returns nothing) and when the backend's decoded
  body is a JSON object; when the decoded body is any other JSON value, \<^verbatim>\<open>null\<close>
  included, the lookup \<^verbatim>\<open>result.get\<close> raises AttributeError.
\<close>

theorem display_result_after_make_request:
  "(display_result rp JNull None :: ('df, json) io)
     = ([], Inl (Exn AttributeError
                  (quoted ''NoneType'' @ '' object has no attribute '' @ quoted ''get'')))
   \<and> (let attempt = post_json net (FASTAPI_BACKEND_URL @ ''/'' @ endpoint) payload;
          r = (bind (make_request net endpoint payload)
                 (\<lambda>(result, error). display_result rp result error) :: ('df, json) io)
      in (\<forall>e. attempt = Inl e \<longrightarrow> snd r = Inr JNull)
         \<and> (\<forall>kvs. attempt = Inr (JObj kvs) \<longrightarrow>
               snd r = Inr (if truthy (dict_get kvs ''error'' JNull) then JNull else JObj kvs))
         \<and> (\<forall>body. attempt = Inr body \<and> \<not> is_dict body \<longrightarrow>
               snd r = Inl (Exn AttributeError
                 (quoted (type_name body) @ '' object has no attribute '' @ quoted ''get''))))"
proof -
  have none: "(display_result rp JNull None :: ('df, json) io)
     = ([], Inl (Exn AttributeError
                  (quoted ''NoneType'' @ '' object has no attribute '' @ quoted ''get'')))"
    using display_result_not_dict [of JNull rp] by (simp add: is_dict_def)
  show ?thesis
  proof (cases "post_json net (FASTAPI_BACKEND_URL @ ''/'' @ endpoint) payload")
    case (Inl e)
    then show ?thesis
      using none
      by (simp add: Let_def make_request_eq display_result_error error_text_nonempty)
  next
    case (Inr body)
    then show ?thesis
      using none
      by (auto simp: Let_def make_request_eq display_result_dict display_result_not_dict
          is_dict_def)
  qed
qed

theorem display_result_after_make_request_witness:
  "post_json (const_backend (JObj [(''advance_eligible'', JBool True)]))
      (FASTAPI_BACKEND_URL @ ''/'' @ ''calculate_advance'') (JObj [])
     = Inr (JObj [(''advance_eligible'', JBool True)])
   \<and> snd (bind (make_request (const_backend (JObj [(''advance_eligible'', JBool True)]))
                  ''calculate_advance'' (JObj []))
               (\<lambda>(result, error). display_result plain_repr result error) :: (unit, json) io)
     = Inr (JObj [(''advance_eligible'', JBool True)])"
  using display_result_after_make_request
    [of plain_repr "const_backend (JObj [(''advance_eligible'', JBool True)])"
        "''calculate_advance''" "JObj []", where ?'df = unit]
  by (simp add: Let_def post_json_def const_backend_def dict_get_def)

text \<open>
  The claim as stated fails: when the backend answers the advance request with the JSON
  body \<^verbatim>\<open>null\<close>, \<open>make_request\<close> returns no result and no error and the flow ends
  with the AttributeError of \<open>display_result\<close>.
\<close>

theorem advance_flow_raises_on_null_body:
  "snd (advance_section plain_repr null_backend ''EMP001'' (Finite False 3000000) ''Monthly''
          (Finite False 500000) True :: (unit, unit) io)
     = Inl (Exn AttributeError
              (quoted ''NoneType'' @ '' object has no attribute '' @ quoted ''get''))"
  by (simp add: advance_section_def make_request_eq post_json_def null_backend_def
      const_backend_def snd_bind display_result_def py_get_def)

section \<open>The employee ID is checked before the request\<close>

text \<open>
  Claim C4. In the advance flow and in the loan flow, pressing the button with an empty
  employee ID shows the validation error and nothing else: no request is sent. With a
  non-empty employee ID the flow goes on to the request: after the header and the
  spinner comes the POST to the flow's endpoint with the flow's payload.
\<close>

theorem empty_employee_id_no_request:
  "(advance_section rp net [] gross_salary pay_frequency requested True :: ('df, unit) io)
     = ([StHeader (bar_chart @ '' Salary Advance Request''),
         StError ''Please enter your Employee ID.''], Inr ())
   \<and> (loan_section rp pd net [] loan_amount slider term True :: ('df, unit) io)
     = ([StHeader (bank @ '' Personal Loan Request''),
         StError ''Please enter your Employee ID.''], Inr ())
   \<and> (employee_id \<noteq> [] \<longrightarrow>
        take 3 (fst (advance_section rp net employee_id gross_salary pay_frequency requested True
                      :: ('df, unit) io))
          = [StHeader (bar_chart @ '' Salary Advance Request''),
             StSpinner ''Processing...'',
             HttpPost (FASTAPI_BACKEND_URL @ ''/calculate_advance'')
               (advance_payload employee_id gross_salary pay_frequency requested)])
   \<and> (employee_id \<noteq> [] \<longrightarrow>
        (\<exists>rate. float_truediv slider (Finite False 100) = Inr rate
           \<and> take 3 (fst (loan_section rp pd net employee_id loan_amount slider term True
                      :: ('df, unit) io))
          = [StHeader (bank @ '' Personal Loan Request''),
             StSpinner ''Calculating...'',
             HttpPost (FASTAPI_BACKEND_URL @ ''/calculate_loan'')
               (loan_payload employee_id loan_amount rate term)]))"
proof (cases slider)
  case (Finite s a)
  then show ?thesis
    by (simp add: advance_section_def loan_section_def emit_def make_request_eq)
next
  case (Infinity s)
  then show ?thesis
    by (simp add: advance_section_def loan_section_def emit_def make_request_eq)
next
  case NaN
  then show ?thesis
    by (simp add: advance_section_def loan_section_def emit_def make_request_eq)
qed


theorem empty_employee_id_no_request_witness:
  "''EMP001'' \<noteq> []
   \<and> take 3 (fst (advance_section plain_repr null_backend ''EMP001'' (Finite False 3000000)
                    ''Monthly'' (Finite False 500000) True :: (json, unit) io))
     = [StHeader (bar_chart @ '' Salary Advance Request''),
        StSpinner ''Processing...'',
        HttpPost ''http://backend:8000/calculate_advance''
          (advance_payload ''EMP001'' (Finite False 3000000) ''Monthly''
             (Finite False 500000))]"
  using empty_employee_id_no_request
    [of plain_repr null_backend "Finite False 3000000" "''Monthly''" "Finite False 500000"
        stub_pandas "Finite False 1000000" "Finite False 7" 12 "''EMP001''"]
  by (simp add: FASTAPI_BACKEND_URL_def)

section \<open>The eligibility panel: checks, criteria and hints\<close>

lemma panel_checks:
  "kvs \<noteq> [] \<Longrightarrow>
   take 6 (fst (display_eligibility_details rp (JObj kvs))) = check_events kvs"
  by (simp add: display_eligibility_details_def emit_if check_events_def indicator_def
      split del: if_split)

lemma panel_events:
  assumes "kvs \<noteq> []"
    and "dict_get kvs ''failed_criteria'' (JArr []) = JArr cs"
    and "dict_get kvs ''max_eligible_advance'' JNull = JNull
         \<or> ugx (dict_get kvs ''max_eligible_advance'' JNull) = Inr amount"
  shows "display_eligibility_details rp (JObj kvs) =
     (check_events kvs
      @ metric_events (dict_get kvs ''max_eligible_advance'' JNull) amount
      @ (if cs = [] then []
         else StSubheader (cross_mark @ '' Issues to Address:'')
              # map (criterion_line rp) cs
              @ StSubheader (light_bulb @ '' How to Become Eligible:'')
              # hint_events kvs amount),
      Inr ())"
proof (cases "dict_get kvs ''max_eligible_advance'' JNull = JNull")
  case True
  show ?thesis
  proof (cases "cs = []")
    case True
    with assms \<open>dict_get kvs ''max_eligible_advance'' JNull = JNull\<close> show ?thesis
      by (simp add: display_eligibility_details_def emit_if check_events_def indicator_def
          metric_events_def ret_def split del: if_split)
  next
    case False
    with assms \<open>dict_get kvs ''max_eligible_advance'' JNull = JNull\<close> show ?thesis
      by (simp add: display_eligibility_details_def emit_if emit_or_skip check_events_def
          indicator_def metric_events_def for_each_emit py_iter_def hint_events_def
          criterion_line_def salary_hint_def frequency_hint_def
          split del: if_split cong del: if_weak_cong)
  qed
next
  case False
  with assms have fmt: "ugx (dict_get kvs ''max_eligible_advance'' JNull) = Inr amount"
    by simp
  show ?thesis
  proof (cases "cs = []")
    case True
    with assms fmt \<open>dict_get kvs ''max_eligible_advance'' JNull \<noteq> JNull\<close> show ?thesis
      by (simp add: display_eligibility_details_def emit_if check_events_def indicator_def
          metric_events_def ret_def emit_def split del: if_split)
  next
    case False
    have amt: "(if c then bind (lift (Inr amount)) (\<lambda>a. emit (g a)) else ret ())
         = (if c then [g amount] else [], Inr ())" for c and g :: "string \<Rightarrow> 'a event"
      by (simp add: emit_def ret_def)
    from False assms fmt \<open>dict_get kvs ''max_eligible_advance'' JNull \<noteq> JNull\<close> show ?thesis
      by (simp add: display_eligibility_details_def emit_if emit_or_skip amt check_events_def
          indicator_def metric_events_def for_each_emit py_iter_def hint_events_def
          criterion_line_def salary_hint_def frequency_hint_def amount_hint_def
          split del: if_split cong del: if_weak_cong)
  qed
qed


lemma ugx_300000: "ugx (JInt 300000) = Inr ''UGX 300,000.00''"
  by code_simp

text \<open>
  Claim C5. For every eligibility details value that is present (a non-empty object), the
  panel starts with its heading and the four checks in the order salary, pay frequency,
  amount, advance limit: each is the positive indicator when the check is true and the
  negative indicator with its fixed label when it is false, whatever the other checks are.
\<close>

theorem panel_shows_four_checks:
  "(kvs \<noteq> [] \<longrightarrow>
      take 6 (fst (display_eligibility_details rp (JObj kvs) :: ('df, unit) io))
        = check_events kvs)
   \<and> (indicator (JBool True) met not_met :: 'df event) = StSuccess (check_mark @ met)
   \<and> (indicator (JBool False) met not_met :: 'df event) = StError (cross_mark @ not_met)"
  by (simp add: panel_checks indicator_def)


theorem panel_shows_four_checks_witness:
  "take 6 (fst (display_eligibility_details plain_repr declined_details :: (unit, unit) io))
     = [StSubheader (clipboard @ '' Eligibility Criteria Check''),
        StColumns [2, 2],
        StSuccess (check_mark @ '' Minimum salary requirement met''),
        StSuccess (check_mark @ '' Valid pay frequency''),
        StSuccess (check_mark @ '' Valid advance amount''),
        StError (cross_mark @ '' Exceeds maximum advance limit'')]"
  using panel_shows_four_checks [of "[(''salary_check'', JBool True),
           (''pay_frequency_check'', JBool True),
           (''amount_check'', JBool True),
           (''advance_limit_check'', JBool False),
           (''max_eligible_advance'', JInt 300000),
           (''failed_criteria'', JArr [JStr ''Exceeds maximum advance limit''])]" plain_repr,
           where ?'df = unit]
  by (simp add: declined_details_def check_events_def indicator_def dict_get_def)

lemma filter_check_events: "filter is_criterion_line (check_events kvs) = []"
  by (simp add: check_events_def indicator_def is_criterion_line_def cross_mark_def bullet_def)

lemma filter_metric_events: "filter is_criterion_line (metric_events m a) = []"
  by (simp add: metric_events_def is_criterion_line_def)

lemma filter_hint_events: "filter is_criterion_line (hint_events kvs a) = []"
  by (simp add: hint_events_def is_criterion_line_def salary_hint_def frequency_hint_def
      amount_hint_def)

lemma filter_criterion_lines:
  "filter is_criterion_line (map (criterion_line rp) cs) = map (criterion_line rp) cs"
  by (induction cs) (simp_all add: is_criterion_line_def criterion_line_def bullet_def)

text \<open>
  Claim C9, as amended. For eligibility details whose \<^verbatim>\<open>failed_criteria\<close> is a list
  and whose \<^verbatim>\<open>max_eligible_advance\<close> is null or a number that formats, the panel
  completes, and its criterion lines are the entries of the list, one error line each, in
  the order of the list and with repetitions kept; an entry that is a string is shown as
  it is. For the empty list there is no criterion line.
\<close>

theorem failed_criteria_in_order:
  assumes "kvs \<noteq> []"
    and "dict_get kvs ''failed_criteria'' (JArr []) = JArr cs"
    and "dict_get kvs ''max_eligible_advance'' JNull = JNull
         \<or> ugx (dict_get kvs ''max_eligible_advance'' JNull) = Inr amount"
  shows "snd (display_eligibility_details rp (JObj kvs) :: ('df, unit) io) = Inr ()
     \<and> filter is_criterion_line (fst (display_eligibility_details rp (JObj kvs) :: ('df, unit) io))
         = map (criterion_line rp) cs
     \<and> (criterion_line rp (JStr s) :: 'df event) = StError (bullet @ '' '' @ s)"
  by (simp add: panel_events [OF assms] filter_check_events filter_metric_events
      filter_hint_events filter_criterion_lines is_criterion_line_def)
     (simp add: criterion_line_def py_str_def)


theorem failed_criteria_in_order_witness:
  "filter is_criterion_line
     (fst (display_eligibility_details plain_repr repeated_details :: (unit, unit) io))
     = [StError (bullet @ '' Invalid pay frequency''),
        StError (bullet @ '' Exceeds maximum advance limit''),
        StError (bullet @ '' Invalid pay frequency'')]
   \<and> snd (display_eligibility_details plain_repr repeated_details :: (unit, unit) io) = Inr ()"
  using failed_criteria_in_order [of "[(''salary_check'', JBool True),
           (''pay_frequency_check'', JBool False),
           (''amount_check'', JBool True),
           (''advance_limit_check'', JBool False),
           (''max_eligible_advance'', JInt 300000),
           (''failed_criteria'',
              JArr [JStr ''Invalid pay frequency'', JStr ''Exceeds maximum advance limit'',
                    JStr ''Invalid pay frequency''])]"
           "[JStr ''Invalid pay frequency'', JStr ''Exceeds maximum advance limit'',
             JStr ''Invalid pay frequency'']" "''UGX 300,000.00''" plain_repr,
           where ?'df = unit]
  by (simp add: repeated_details_def dict_get_def ugx_300000 criterion_line_def py_str_def)

lemma round_half_even_of_int: "round_half_even (of_int n) = n"
  by (simp add: round_half_even_def)

lemma ulp_exponent_power2:
  "ulp_exponent (2 ^ c) = max (int c - 52) (- 1074)"
proof -
  have q: "quotient_of ((2::rat) ^ c) = (2 ^ c, 1)"
    using quotient_of_int [of "2 ^ c"] by (simp add: Rat.of_int_def)
  have b: "bitlen (2 ^ c) = int c + 1"
    using bitlen_pow2 [of 1 c] by (simp add: bitlen_alt_def)
  have b1: "bitlen 1 = 1" by (simp add: bitlen_alt_def)
  have "\<not> (2::rat) ^ c < 2 powi (int c)" by simp
  then show ?thesis by (simp add: ulp_exponent_def q b b1 Let_def)
qed

lemma round_binary64_power2:
  assumes "52 \<le> c"
  shows "round_binary64 (2 ^ c) = 2 ^ c"
proof -
  have e: "ulp_exponent (2 ^ c) = int c - 52"
    using assms by (simp add: ulp_exponent_power2)
  have split: "(2::rat) ^ c = 2 ^ 52 * 2 powi (int c - 52)"
  proof -
    have "(2::rat) ^ c = 2 powi (52 + (int c - 52))" by simp
    also have "\<dots> = 2 powi 52 * 2 powi (int c - 52)"
      by (rule power_int_add) simp
    finally show ?thesis by simp
  qed
  have pos: "(0::rat) < 2 powi (int c - 52)" by (simp add: zero_less_power_int)
  have "(2::rat) ^ c / 2 powi (int c - 52) = of_int (2 ^ 52)"
    using pos by (subst split) simp
  then have "round_half_even ((2::rat) ^ c / 2 powi (int c - 52)) = 2 ^ 52"
    by (simp only: round_half_even_of_int)
  moreover have "\<not> (2::rat) ^ c \<le> 0" by (simp add: not_le)
  ultimately have "round_binary64 (2 ^ c) = of_int (2 ^ 52) * 2 powi (int c - 52)"
    by (simp add: round_binary64_def e Let_def del: of_int_power of_int_numeral)
  with split show ?thesis by simp
qed

lemma ugx_huge_advance:
  "ugx (JInt huge_advance) = Inl (Exn OverflowError ''int too large to convert to float'')"
proof -
  have "round_binary64 (2 ^ 1024) = 2 ^ 1024"
    by (rule round_binary64_power2) simp
  then have "binary64_of False (of_int \<bar>huge_advance\<bar>) = Infinity False"
    by (simp add: binary64_of_def huge_advance_def)
  moreover have "\<not> huge_advance < 0" by (simp add: huge_advance_def)
  ultimately show ?thesis
    by (simp add: ugx_def py_format_f_def int_to_float_def)
qed

text \<open>
  The claim as stated fails: for details whose \<^verbatim>\<open>max_eligible_advance\<close> is the integer
  \<open>2 ^ 1024\<close> the metric raises OverflowError after the four indicators, and none of
  the two failed criteria is listed.
\<close>

theorem criteria_not_listed_on_overflow:
  "py_get overflow_details ''failed_criteria'' (JArr [])
     = Inr (JArr [JStr ''Invalid pay frequency'', JStr ''Exceeds maximum advance limit''])
   \<and> (display_eligibility_details plain_repr overflow_details :: (unit, unit) io)
     = ([StSubheader (clipboard @ '' Eligibility Criteria Check''),
         StColumns [2, 2],
         StSuccess (check_mark @ '' Minimum salary requirement met''),
         StError (cross_mark @ '' Invalid pay frequency''),
         StSuccess (check_mark @ '' Valid advance amount''),
         StError (cross_mark @ '' Exceeds maximum advance limit'')],
        Inl (Exn OverflowError ''int too large to convert to float''))"
  by (simp add: overflow_details_def display_eligibility_details_def dict_get_def emit_def
      ugx_huge_advance)

text \<open>
  Claim C1, as amended. For eligibility details whose \<^verbatim>\<open>failed_criteria\<close> is a list
  and whose \<^verbatim>\<open>max_eligible_advance\<close> is null or a number that formats: the salary hint
  is shown if and only if \<^verbatim>\<open>failed_criteria\<close> is non-empty and \<^verbatim>\<open>salary_check\<close> is
  false; the frequency hint if and only if \<^verbatim>\<open>failed_criteria\<close> is non-empty and
  \<^verbatim>\<open>pay_frequency_check\<close> is false; the amount hint if and only if
  \<^verbatim>\<open>failed_criteria\<close> is non-empty, \<^verbatim>\<open>advance_limit_check\<close> is false and
  \<^verbatim>\<open>max_eligible_advance\<close> is truthy (present and not zero).
\<close>

theorem hints_when_criteria_failed:
  assumes "kvs \<noteq> []"
    and "dict_get kvs ''failed_criteria'' (JArr []) = JArr cs"
    and "dict_get kvs ''max_eligible_advance'' JNull = JNull
         \<or> ugx (dict_get kvs ''max_eligible_advance'' JNull) = Inr amount"
  shows "(salary_hint \<in> set (fst (display_eligibility_details rp (JObj kvs) :: ('df, unit) io))
          \<longleftrightarrow> cs \<noteq> [] \<and> \<not> truthy (dict_get kvs ''salary_check'' JNull))
     \<and> (frequency_hint \<in> set (fst (display_eligibility_details rp (JObj kvs) :: ('df, unit) io))
          \<longleftrightarrow> cs \<noteq> [] \<and> \<not> truthy (dict_get kvs ''pay_frequency_check'' JNull))
     \<and> (amount_hint amount
          \<in> set (fst (display_eligibility_details rp (JObj kvs) :: ('df, unit) io))
          \<longleftrightarrow> cs \<noteq> [] \<and> \<not> truthy (dict_get kvs ''advance_limit_check'' JNull)
                \<and> truthy (dict_get kvs ''max_eligible_advance'' JNull))"
proof -
  have checks: "salary_hint \<notin> set (check_events kvs :: 'df event list)"
    "frequency_hint \<notin> set (check_events kvs :: 'df event list)"
    "amount_hint amount \<notin> set (check_events kvs :: 'df event list)"
    by (simp_all add: check_events_def indicator_def salary_hint_def frequency_hint_def
        amount_hint_def)
  have metric: "salary_hint \<notin> set (metric_events m amount :: 'df event list)"
    "frequency_hint \<notin> set (metric_events m amount :: 'df event list)"
    "amount_hint amount \<notin> set (metric_events m amount :: 'df event list)" for m
    by (simp_all add: metric_events_def salary_hint_def frequency_hint_def amount_hint_def)
  have lines: "salary_hint \<notin> (criterion_line rp ` set cs :: 'df event set)"
    "frequency_hint \<notin> (criterion_line rp ` set cs :: 'df event set)"
    "amount_hint amount \<notin> (criterion_line rp ` set cs :: 'df event set)"
    by (auto simp: criterion_line_def salary_hint_def frequency_hint_def amount_hint_def)
  have distinct: "(salary_hint :: 'df event) \<noteq> frequency_hint"
    "(salary_hint :: 'df event) \<noteq> amount_hint amount"
    "(frequency_hint :: 'df event) \<noteq> amount_hint amount"
    "(salary_hint :: 'df event) \<noteq> StSubheader x"
    "(frequency_hint :: 'df event) \<noteq> StSubheader x"
    "(amount_hint amount :: 'df event) \<noteq> StSubheader x" for x
    by (simp_all add: salary_hint_def frequency_hint_def amount_hint_def bullet_def)
  show ?thesis
    using checks metric lines distinct distinct [symmetric]
    by (auto simp: panel_events [OF assms] hint_events_def)
qed


theorem hints_when_criteria_failed_witness:
  "amount_hint ''UGX 300,000.00''
     \<in> set (fst (display_eligibility_details plain_repr declined_details :: (unit, unit) io))
   \<and> salary_hint
     \<notin> set (fst (display_eligibility_details plain_repr declined_details :: (unit, unit) io))"
  using hints_when_criteria_failed [of "[(''salary_check'', JBool True),
           (''pay_frequency_check'', JBool True),
           (''amount_check'', JBool True),
           (''advance_limit_check'', JBool False),
           (''max_eligible_advance'', JInt 300000),
           (''failed_criteria'', JArr [JStr ''Exceeds maximum advance limit''])]"
           "[JStr ''Exceeds maximum advance limit'']" "''UGX 300,000.00''" plain_repr,
           where ?'df = unit]
  by (simp add: declined_details_def dict_get_def ugx_300000)

text \<open>
  The claim as stated fails: with \<^verbatim>\<open>salary_check\<close> false and an empty
  \<^verbatim>\<open>failed_criteria\<close> the panel shows the four indicators and no hint.
\<close>

theorem no_hint_without_failed_criteria:
  "py_get unmet_salary_details ''salary_check'' JNull = Inr (JBool False)
   \<and> (display_eligibility_details plain_repr unmet_salary_details :: (unit, unit) io)
     = ([StSubheader (clipboard @ '' Eligibility Criteria Check''),
         StColumns [2, 2],
         StError (cross_mark @ '' Minimum salary requirement not met''),
         StSuccess (check_mark @ '' Valid pay frequency''),
         StSuccess (check_mark @ '' Valid advance amount''),
         StSuccess (check_mark @ '' Within advance limit'')], Inr ())"
  by (simp add: unmet_salary_details_def display_eligibility_details_def dict_get_def
      emit_def ret_def)

section \<open>The loan flow: interest rate, summary, schedule and download\<close>

lemma round_half_even_le: "x \<le> of_int n \<Longrightarrow> round_half_even x \<le> n"
proof -
  assume le: "x \<le> of_int n"
  show ?thesis
  proof (cases "x = of_int n")
    case True
    then show ?thesis by (simp add: round_half_even_def)
  next
    case False
    with le have "x < of_int n" by simp
    then have "\<lfloor>x\<rfloor> < n" by (simp add: floor_less_iff)
    then show ?thesis by (simp add: round_half_even_def Let_def)
  qed
qed

lemma round_half_even_nonneg: "0 \<le> x \<Longrightarrow> 0 \<le> round_half_even x"
  by (simp add: round_half_even_def Let_def)

lemma ulp_exponent_le:
  assumes "0 < q" and "q \<le> 1 / 4"
  shows "ulp_exponent q \<le> - 2"
proof -
  obtain p d where pd: "quotient_of q = (p, d)" by (cases "quotient_of q")
  then have d: "0 < d" and q: "q = of_int p / of_int d"
    by (simp_all add: quotient_of_denom_pos quotient_of_div)
  from assms q d have "0 < p" by (simp add: zero_less_divide_iff)
  from assms q d have "(of_int p :: rat) \<le> of_int d" by (simp add: pos_divide_le_eq)
  then have "p \<le> d" by simp
  then have "p < 2 ^ nat (bitlen d)" using bitlen_bounds [OF d] by linarith
  then have "bitlen p \<le> bitlen d" by (simp add: bitlen_le_iff_power bitlen_nonneg)
  then show ?thesis by (simp add: ulp_exponent_def pd Let_def)
qed

lemma round_binary64_quarter:
  assumes "0 \<le> q" and "q \<le> 1 / 4"
  shows "0 \<le> round_binary64 q \<and> round_binary64 q \<le> 1 / 4"
proof (cases "q = 0")
  case True
  then show ?thesis by (simp add: round_binary64_def)
next
  case False
  with assms have pos: "0 < q" by simp
  define e where "e = ulp_exponent q"
  have e: "e \<le> - 2" unfolding e_def by (rule ulp_exponent_le [OF pos assms(2)])
  define n :: int where "n = 2 ^ nat (- 2 - e)"
  have pw: "(0::rat) < 2 powi e" by (simp add: zero_less_power_int)
  have n: "(of_int n :: rat) * 2 powi e = 1 / 4"
  proof -
    have "(of_int n :: rat) = 2 powi (- 2 - e)" using e by (simp add: n_def power_int_def)
    then have "(of_int n :: rat) * 2 powi e = 2 powi (- 2 - e) * 2 powi e" by simp
    also have "\<dots> = 2 powi (- 2 - e + e)" by (rule power_int_add [symmetric]) simp
    also have "\<dots> = 2 powi (- 2)" by simp
    also have "\<dots> = 1 / 4" by (simp add: power_int_minus)
    finally show ?thesis .
  qed
  have "q / 2 powi e \<le> of_int n"
    using assms(2) pw n by (simp add: pos_divide_le_eq)
  then have up: "round_half_even (q / 2 powi e) \<le> n" by (rule round_half_even_le)
  have lo: "0 \<le> round_half_even (q / 2 powi e)"
    using pos pw by (intro round_half_even_nonneg) simp
  have "of_int (round_half_even (q / 2 powi e)) * 2 powi e \<le> (of_int n :: rat) * 2 powi e"
    using up pw by (simp add: mult_right_mono)
  then have hi: "of_int (round_half_even (q / 2 powi e)) * 2 powi e \<le> (1 / 4 :: rat)"
    by (simp only: n)
  have "(0::rat) \<le> of_int (round_half_even (q / 2 powi e)) * 2 powi e"
    using lo pw by simp
  moreover have "round_binary64 q = of_int (round_half_even (q / 2 powi e)) * 2 powi e"
    using pos by (simp add: round_binary64_def e_def Let_def)
  ultimately show ?thesis using hi by (simp only: simp_thms)
qed

lemma rate_in_range:
  assumes "0 \<le> p" and "p \<le> 25"
  shows "\<exists>r. float_truediv (Finite False p) (Finite False 100) = Inr (Finite False r)
          \<and> 0 \<le> r \<and> r \<le> 1 / 4"
proof -
  have "0 \<le> p / 100" "p / 100 \<le> 1 / 4" using assms by simp_all
  then have r: "0 \<le> round_binary64 (p / 100) \<and> round_binary64 (p / 100) \<le> 1 / 4"
    by (rule round_binary64_quarter)
  then have "\<not> 2 ^ 1024 \<le> round_binary64 (p / 100)" by simp
  with r show ?thesis by (simp add: binary64_of_def Let_def)
qed

lemma rate_of_seven:
  "float_truediv (Finite False 7) (Finite False 100)
     = Inr (Finite False (5044031582654956 / 2 ^ 56))"
  by code_simp

lemma truediv_25:
  "float_truediv (Finite False 25) (Finite False 100) = Inr (Finite False (1 / 4))"
  by code_simp

lemma binary64_quarter: "binary64_of False (1 / 4) = Finite False (1 / 4)"
  by code_simp

lemma format_zero: "py_format_f True 2 (JInt 0) = Inr ''0.00''"
  by code_simp

lemma fst_format_columns: "fst (format_columns pd cols df) = []"
  by (induction cols arbitrary: df)
     (auto simp: ret_def fst_bind lift_def split: sum.splits)

lemma loan_request_events:
  "employee_id \<noteq> [] \<Longrightarrow> float_truediv slider (Finite False 100) = Inr rate \<Longrightarrow>
   take 3 (fst (loan_section rp pd net employee_id loan_amount slider term True))
     = request_events employee_id loan_amount rate term"
  by (simp add: loan_section_def make_request_eq request_events_def)

text \<open>
  Claim C7. The interest slider gives a percentage; the flow divides it by 100 and sends
  the quotient as \<^verbatim>\<open>annual_interest_rate\<close>. For every percentage between 0 and 25 the
  quotient, rounded to binary64 as Python's division rounds it, lies between 0 and 1/4
  and is the value of the field in the payload of the request. For the percentage 7.0
  the value sent is \<open>5044031582654956 / 2 ^ 56\<close>, which is the binary64 value nearest to
  7/100, that is the float that the literal \<^verbatim>\<open>0.07\<close> denotes.
\<close>

theorem interest_rate_fraction:
  "(0 \<le> p \<and> p \<le> 25 \<and> employee_id \<noteq> [] \<longrightarrow>
      (\<exists>r. 0 \<le> r \<and> r \<le> 1 / 4
         \<and> float_truediv (Finite False p) (Finite False 100) = Inr (Finite False r)
         \<and> take 3 (fst (loan_section rp pd net employee_id loan_amount (Finite False p) term
                          True :: ('df, unit) io))
             = request_events employee_id loan_amount (Finite False r) term
         \<and> py_get (loan_payload employee_id loan_amount (Finite False r) term)
               ''annual_interest_rate'' JNull
             = Inr (JFloat (Finite False r))))
   \<and> (employee_id \<noteq> [] \<longrightarrow>
        take 3 (fst (loan_section rp pd net employee_id loan_amount (Finite False 7) term
                       True :: ('df, unit) io))
          = request_events employee_id loan_amount (Finite False (5044031582654956 / 2 ^ 56))
              term)
   \<and> binary64_of False (7 / 100) = Finite False (5044031582654956 / 2 ^ 56)"
proof -
  have range: "\<exists>r. 0 \<le> r \<and> r \<le> 1 / 4
         \<and> float_truediv (Finite False p) (Finite False 100) = Inr (Finite False r)
         \<and> take 3 (fst (loan_section rp pd net employee_id loan_amount (Finite False p) term
                          True :: ('df, unit) io))
             = request_events employee_id loan_amount (Finite False r) term
         \<and> py_get (loan_payload employee_id loan_amount (Finite False r) term)
               ''annual_interest_rate'' JNull
             = Inr (JFloat (Finite False r))"
    if lower: "0 \<le> p" and upper: "p \<le> 25" and id: "employee_id \<noteq> []"
  proof -
    obtain r where r: "float_truediv (Finite False p) (Finite False 100) = Inr (Finite False r)"
      "0 \<le> r" "r \<le> 1 / 4"
      using rate_in_range [OF lower upper] by blast
    have "py_get (loan_payload employee_id loan_amount (Finite False r) term)
               ''annual_interest_rate'' JNull = Inr (JFloat (Finite False r))"
      by (simp add: loan_payload_def dict_get_def)
    with r loan_request_events [OF id r(1)] show ?thesis by blast
  qed
  have seven: "take 3 (fst (loan_section rp pd net employee_id loan_amount (Finite False 7) term
                       True :: ('df, unit) io))
          = request_events employee_id loan_amount (Finite False (5044031582654956 / 2 ^ 56))
              term" if "employee_id \<noteq> []"
    by (rule loan_request_events [OF that rate_of_seven])
  have literal: "binary64_of False (7 / 100) = Finite False (5044031582654956 / 2 ^ 56)"
    using rate_of_seven by simp
  from range seven literal show ?thesis by blast
qed

theorem interest_rate_fraction_witness:
  "(0::rat) \<le> 25 \<and> ''EMP001'' \<noteq> []
   \<and> take 3 (fst (loan_section plain_repr stub_pandas null_backend ''EMP001''
                    (Finite False 1000000) (Finite False 25) 12 True :: (json, unit) io))
     = request_events ''EMP001'' (Finite False 1000000) (Finite False (1 / 4)) 12"
proof -
  from interest_rate_fraction
    [of 25 "''EMP001''" plain_repr stub_pandas null_backend "Finite False 1000000" 12]
  obtain r where
    r: "float_truediv (Finite False 25) (Finite False 100) = Inr (Finite False r)"
    and events: "take 3 (fst (loan_section plain_repr stub_pandas null_backend ''EMP001''
                    (Finite False 1000000) (Finite False 25) 12 True :: (json, unit) io))
       = request_events ''EMP001'' (Finite False 1000000) (Finite False r) 12"
    by auto
  from r have "r = 1 / 4" by (simp only: truediv_25 sum.inject pyfloat.inject simp_thms)
  with events show ?thesis by simp
qed

text \<open>
  Claim C6, as amended. After an answer that is a JSON object without a truthy
  \<^verbatim>\<open>error\<close>: when \<^verbatim>\<open>loan_requested\<close> is not truthy the loan flow shows nothing
  after the request; when it is truthy and the total repayable amount formats (it is
  absent, and then shown as \<^verbatim>\<open>0.00\<close>, or a number in the float range), the flow
  shows the three summary metrics, the total repayable amount, and then the schedule
  block if the schedule is present and non-empty, or else the informational message
  \<^verbatim>\<open>No amortization schedule available.\<close> and no error.
\<close>

theorem loan_result_rendering:
  assumes "employee_id \<noteq> []"
    and "float_truediv slider (Finite False 100) = Inr rate"
    and "post_json net (FASTAPI_BACKEND_URL @ ''/calculate_loan'')
           (loan_payload employee_id loan_amount rate months) = Inr (JObj kvs)"
    and "\<not> truthy (dict_get kvs ''error'' JNull)"
  shows "(\<not> truthy (dict_get kvs ''loan_requested'' JNull) \<longrightarrow>
            (loan_section rp pd net employee_id loan_amount slider months True :: ('df, unit) io)
              = (request_events employee_id loan_amount rate months, Inr ()))
     \<and> (truthy (dict_get kvs ''loan_requested'' JNull)
          \<and> py_format_f True 2 (dict_get kvs ''loan_total_repayable_amount'' (JInt 0)) = Inr amount
          \<longrightarrow>
            (loan_section rp pd net employee_id loan_amount slider months True :: ('df, unit) io)
              = (request_events employee_id loan_amount rate months
                 @ summary_events rp loan_amount rate months
                 @ [StWrite (''**Total Repayable:** UGX '' @ amount)]
                 @ (if truthy (dict_get kvs ''loan_amortization_schedule'' JNull)
                    then fst (show_schedule pd employee_id months
                                (dict_get kvs ''loan_amortization_schedule'' JNull))
                    else [StInfo ''No amortization schedule available.'']),
                 if truthy (dict_get kvs ''loan_amortization_schedule'' JNull)
                 then snd (show_schedule pd employee_id months
                             (dict_get kvs ''loan_amortization_schedule'' JNull))
                 else Inr ()))
     \<and> (map_of kvs ''loan_total_repayable_amount'' = None \<longrightarrow>
          py_format_f True 2 (dict_get kvs ''loan_total_repayable_amount'' (JInt 0)) = Inr ''0.00'')"
proof -
  have absent: "map_of kvs ''loan_total_repayable_amount'' = None \<longrightarrow>
          py_format_f True 2 (dict_get kvs ''loan_total_repayable_amount'' (JInt 0)) = Inr ''0.00''"
    by (simp add: dict_get_def format_zero)
  have nonempty: "truthy (dict_get kvs ''loan_requested'' JNull) \<Longrightarrow> kvs \<noteq> []"
    by (auto simp: dict_get_def)
  have not_requested: "\<not> truthy (dict_get kvs ''loan_requested'' JNull) \<Longrightarrow>
      (loan_section rp pd net employee_id loan_amount slider months True :: ('df, unit) io)
        = (request_events employee_id loan_amount rate months, Inr ())"
    using assms
    by (cases "kvs = []")
       (simp_all add: loan_section_def make_request_eq display_result_dict request_events_def
          ret_def)
  have requested: "truthy (dict_get kvs ''loan_requested'' JNull) \<Longrightarrow>
      py_format_f True 2 (dict_get kvs ''loan_total_repayable_amount'' (JInt 0)) = Inr amount \<Longrightarrow>
      (loan_section rp pd net employee_id loan_amount slider months True :: ('df, unit) io)
         = (request_events employee_id loan_amount rate months
                 @ summary_events rp loan_amount rate months
                 @ [StWrite (''**Total Repayable:** UGX '' @ amount)]
                 @ (if truthy (dict_get kvs ''loan_amortization_schedule'' JNull)
                    then fst (show_schedule pd employee_id months
                                (dict_get kvs ''loan_amortization_schedule'' JNull))
                    else [StInfo ''No amortization schedule available.'']),
                 if truthy (dict_get kvs ''loan_amortization_schedule'' JNull)
                 then snd (show_schedule pd employee_id months
                             (dict_get kvs ''loan_amortization_schedule'' JNull))
                 else Inr ())"
    using assms nonempty
    by (simp add: loan_section_def make_request_eq display_result_dict request_events_def
          summary_events_def emit_def)
  from absent not_requested requested show ?thesis by blast
qed


theorem loan_result_rendering_witness:
  "(loan_section plain_repr stub_pandas (const_backend loan_answer) ''EMP001''
      (Finite False 1000000) (Finite False 25) 12 True :: (json, unit) io)
     = (request_events ''EMP001'' (Finite False 1000000) (Finite False (1 / 4)) 12
        @ summary_events plain_repr (Finite False 1000000) (Finite False (1 / 4)) 12
        @ [StWrite ''**Total Repayable:** UGX 0.00'',
           StInfo ''No amortization schedule available.''], Inr ())"
  using loan_result_rendering
    [where employee_id = "''EMP001''" and slider = "Finite False 25"
       and rate = "Finite False (1 / 4)" and net = "const_backend loan_answer"
       and loan_amount = "Finite False 1000000" and months = 12
       and kvs = "[(''loan_requested'', JBool True)]" and amount = "''0.00''"
       and rp = plain_repr and pd = stub_pandas]
  by (simp add: binary64_quarter post_json_def const_backend_def loan_answer_def dict_get_def
      format_zero)

text \<open>
  The claim as stated fails: for an answer with \<^verbatim>\<open>loan_requested\<close> true, no schedule
  and the total present but null, the flow shows the three metrics and then raises
  TypeError at the total; the informational message is not shown.
\<close>

theorem loan_total_null_raises:
  "(loan_section plain_repr stub_pandas (const_backend null_total_answer) ''EMP001''
      (Finite False 1000000) (Finite False 25) 12 True :: (json, unit) io)
     = (request_events ''EMP001'' (Finite False 1000000) (Finite False (1 / 4)) 12
        @ summary_events plain_repr (Finite False 1000000) (Finite False (1 / 4)) 12,
        Inl (Exn TypeError ''unsupported format string passed to NoneType.__format__''))"
  by (simp add: loan_section_def binary64_quarter make_request_eq post_json_def
      const_backend_def null_total_answer_def display_result_dict dict_get_def
      request_events_def summary_events_def py_format_f_def)

lemma digit_char:
  "0 \<le> d \<Longrightarrow> d < 10 \<Longrightarrow> of_char (''0123456789'' ! nat d) = 48 + d"
proof -
  assume "0 \<le> d" "d < 10"
  then have "d = 0 \<or> d = 1 \<or> d = 2 \<or> d = 3 \<or> d = 4 \<or> d = 5 \<or> d = 6 \<or> d = 7 \<or> d = 8 \<or> d = 9"
    by arith
  then show ?thesis by (elim disjE) simp_all
qed

lemma decimal_value_snoc:
  "decimal_value (s @ [c]) = 10 * decimal_value s + (of_char c - 48)"
  by (simp add: decimal_value_def)

lemma decimal_value_digits: "0 \<le> n \<Longrightarrow> decimal_value (digits n) = n"
proof (induction n rule: digits.induct)
  case (1 n)
  show ?case
  proof (cases "n < 10")
    case True
    with "1.prems" show ?thesis
      by (subst digits.simps) (simp add: decimal_value_def digit_char)
  next
    case False
    with "1.prems" have "decimal_value (digits (n div 10)) = n div 10"
      by (intro "1.IH") simp_all
    moreover have "of_char (''0123456789'' ! nat (n mod 10)) = 48 + n mod 10"
      by (rule digit_char) simp_all
    ultimately show ?thesis
      using False by (subst digits.simps) (simp add: decimal_value_snoc)
  qed
qed

lemma encode_utf8_examples:
  "encode_utf8 [0x41, 0xE9, 0x2022, 0x1F4CA]
     = Inr ([CHR 0x41, CHR 0xC3, CHR 0xA9] @ bullet @ bar_chart)"
  "encode_utf8 [0x41, 0xD800] = Inl (Exn UnicodeEncodeError ''surrogates not allowed'')"
  by code_simp+

text \<open>
  Claim C8. Whenever the schedule block of the loan flow completes, it shows the heading,
  the formatted table and one download button. The table is the frame built from the
  schedule with its dates parsed, its currency columns formatted and \<^verbatim>\<open>Payment_Number\<close>
  as index. The data of the button is the UTF-8 encoding of \<^verbatim>\<open>to_csv\<close>, with the header
  row and without the index, of the frame built from the schedule as the backend sent it,
  not of the formatted frame. The file name is \<^verbatim>\<open>amortization_schedule_\<close>, the employee
  ID, \<^verbatim>\<open>_\<close>, the term in decimal (read back, it is the term) and \<^verbatim>\<open>months.csv\<close>; the
  MIME type is \<^verbatim>\<open>text/csv\<close>. The encoding writes one to four bytes for a code point.
\<close>

theorem schedule_download:
  assumes "(show_schedule pd employee_id months schedule :: ('df, unit) io) = (evs, Inr ())"
  shows "(\<exists>raw dates parsed dated formatted shown csv.
       pd_DataFrame pd schedule = Inr raw
     \<and> df_getitem pd raw ''Payment_Date'' = Inr dates
     \<and> pd_to_datetime pd dates = Inr parsed
     \<and> df_setitem pd raw ''Payment_Date'' parsed = Inr dated
     \<and> format_columns pd currency_cols dated = ([], Inr formatted)
     \<and> df_set_index pd formatted ''Payment_Number'' = Inr shown
     \<and> encode_utf8 (df_to_csv pd raw True False) = Inr csv
     \<and> evs = [StWrite (''### '' @ bar_chart @ '' Amortization Schedule''),
              StDataframe shown True,
              StDownloadButton (inbox_tray @ '' Download Schedule as CSV'') csv
                (''amortization_schedule_'' @ employee_id @ ''_'' @ str_int months
                   @ ''months.csv'')
                ''text/csv''])
     \<and> (0 \<le> months \<longrightarrow> decimal_value (str_int months) = months)
     \<and> encode_utf8 [0x41, 0xE9, 0x2022, 0x1F4CA]
         = Inr ([CHR 0x41, CHR 0xC3, CHR 0xA9] @ bullet @ bar_chart)"
proof -
  obtain raw where raw: "pd_DataFrame pd schedule = Inr raw"
    using assms by (cases "pd_DataFrame pd schedule") (simp_all add: show_schedule_def)
  obtain dates where dates: "df_getitem pd raw ''Payment_Date'' = Inr dates"
    using assms raw by (cases "df_getitem pd raw ''Payment_Date''") (simp_all add: show_schedule_def)
  obtain parsed where parsed: "pd_to_datetime pd dates = Inr parsed"
    using assms raw dates by (cases "pd_to_datetime pd dates") (simp_all add: show_schedule_def)
  obtain dated where dated: "df_setitem pd raw ''Payment_Date'' parsed = Inr dated"
    using assms raw dates parsed
    by (cases "df_setitem pd raw ''Payment_Date'' parsed") (simp_all add: show_schedule_def)
  obtain formatted where formatted: "format_columns pd currency_cols dated = ([], Inr formatted)"
    using assms raw dates parsed dated fst_format_columns [of pd currency_cols dated]
    by (cases "format_columns pd currency_cols dated :: ('df, 'df) io";
        cases "snd (format_columns pd currency_cols dated :: ('df, 'df) io)")
       (simp_all add: show_schedule_def)
  obtain shown where shown: "df_set_index pd formatted ''Payment_Number'' = Inr shown"
    using assms raw dates parsed dated formatted
    by (cases "df_set_index pd formatted ''Payment_Number''") (simp_all add: show_schedule_def)
  obtain csv where csv: "encode_utf8 (df_to_csv pd raw True False) = Inr csv"
    using assms raw dates parsed dated formatted shown
    by (cases "encode_utf8 (df_to_csv pd raw True False)") (simp_all add: show_schedule_def)
  have "evs = [StWrite (''### '' @ bar_chart @ '' Amortization Schedule''),
              StDataframe shown True,
              StDownloadButton (inbox_tray @ '' Download Schedule as CSV'') csv
                (''amortization_schedule_'' @ employee_id @ ''_'' @ str_int months
                   @ ''months.csv'')
                ''text/csv'']"
    using assms raw dates parsed dated formatted shown csv
    by (auto simp: show_schedule_def emit_def csv_file_name_def)
  with raw dates parsed dated formatted shown csv
  have first: "\<exists>raw dates parsed dated formatted shown csv.
       pd_DataFrame pd schedule = Inr raw
     \<and> df_getitem pd raw ''Payment_Date'' = Inr dates
     \<and> pd_to_datetime pd dates = Inr parsed
     \<and> df_setitem pd raw ''Payment_Date'' parsed = Inr dated
     \<and> format_columns pd currency_cols dated = ([], Inr formatted)
     \<and> df_set_index pd formatted ''Payment_Number'' = Inr shown
     \<and> encode_utf8 (df_to_csv pd raw True False) = Inr csv
     \<and> evs = [StWrite (''### '' @ bar_chart @ '' Amortization Schedule''),
              StDataframe shown True,
              StDownloadButton (inbox_tray @ '' Download Schedule as CSV'') csv
                (''amortization_schedule_'' @ employee_id @ ''_'' @ str_int months
                   @ ''months.csv'')
                ''text/csv'']"
    by blast
  have second: "0 \<le> months \<longrightarrow> decimal_value (str_int months) = months"
    by (simp add: str_int_def decimal_value_digits)
  from first second encode_utf8_examples(1) show ?thesis by blast
qed

lemma str_int_36: "str_int 36 = ''36''"
  by code_simp

lemma ugx_zero: "ugx (JInt 0) = Inr ''UGX 0.00''"
  by (simp add: ugx_def format_zero)

theorem schedule_download_witness:
  "(show_schedule table_pandas ''EMP001'' 36 two_row_schedule :: (frame, unit) io)
     = ([StWrite (''### '' @ bar_chart @ '' Amortization Schedule''),
         StDataframe
           (Frame (Some ''Payment_Number'')
              [[(''Payment_Number'', JInt 1),
                (''Payment_Date'', JStr ''2025-01-31''),
                (''Beginning_Balance'', JStr ''UGX 300,000.00''),
                (''Ending_Balance'', JStr ''UGX 0.00'')],
               [(''Payment_Number'', JInt 2),
                (''Payment_Date'', JStr ''2025-02-28''),
                (''Beginning_Balance'', JStr ''UGX 0.00''),
                (''Ending_Balance'', JStr ''UGX 0.00'')]])
           True,
         StDownloadButton (inbox_tray @ '' Download Schedule as CSV'')
           (''Payment_Number,Payment_Date,Beginning_Balance,Ending_Balance'' @ [CHR 0x0A]
            @ ''1,2025-01-31,300000,0'' @ [CHR 0x0A]
            @ ''2,2025-02-28,0,0'' @ [CHR 0x0A])
           ''amortization_schedule_EMP001_36months.csv'' ''text/csv''], Inr ())"
proof -
  have run: "(show_schedule table_pandas ''EMP001'' 36 two_row_schedule :: (frame, unit) io)
     = ([StWrite (''### '' @ bar_chart @ '' Amortization Schedule''),
         StDataframe
           (Frame (Some ''Payment_Number'')
              [[(''Payment_Number'', JInt 1),
                (''Payment_Date'', JStr ''2025-01-31''),
                (''Beginning_Balance'', JStr ''UGX 300,000.00''),
                (''Ending_Balance'', JStr ''UGX 0.00'')],
               [(''Payment_Number'', JInt 2),
                (''Payment_Date'', JStr ''2025-02-28''),
                (''Beginning_Balance'', JStr ''UGX 0.00''),
                (''Ending_Balance'', JStr ''UGX 0.00'')]])
           True,
         StDownloadButton (inbox_tray @ '' Download Schedule as CSV'')
           (''Payment_Number,Payment_Date,Beginning_Balance,Ending_Balance'' @ [CHR 0x0A]
            @ ''1,2025-01-31,300000,0'' @ [CHR 0x0A]
            @ ''2,2025-02-28,0,0'' @ [CHR 0x0A])
           (csv_file_name ''EMP001'' 36) ''text/csv''], Inr ())"
    by (simp add: show_schedule_def table_pandas_def two_row_schedule_def currency_cols_def
        frame_columns_def frame_rows_def dict_get_def ugx_300000 ugx_zero ret_def emit_def
        frame_to_csv_def csv_line_def ascii_text_def py_str_def str_int_def digits.simps
        utf8_bytes_def; code_simp)
  from schedule_download [OF run] show ?thesis
    by (auto simp: run str_int_36)
qed

end
